theory Spec2Isabelle
  imports Main "HOL-Library.Word" "HOL-Library.Sublist"
begin

section \<open>Attribute values and the identifier variables\<close>

text \<open>
  \<^verbatim>\<open>pcommon.Map.AsRaw()\<close> yields a Go \<^verbatim>\<open>map[string]any\<close> whose values are
  \<^verbatim>\<open>string\<close>, \<^verbatim>\<open>bool\<close>, \<^verbatim>\<open>int64\<close>, \<^verbatim>\<open>float64\<close> (kept here as its 64 bits),
  \<^verbatim>\<open>map[string]any\<close>, \<^verbatim>\<open>[]any\<close>, \<^verbatim>\<open>[]byte\<close> or \<^verbatim>\<open>nil\<close>.
\<close>

datatype any =
    AnyString string
  | AnyBool bool
  | AnyInt64 "64 word"
  | AnyFloat64 "64 word"
  | AnyMap "(string \<times> any) list"
  | AnySlice "any list"
  | AnyBytes "8 word list"
  | AnyNil

type_synonym attrs = "string \<rightharpoonup> any"

text \<open>A failed single-value type assertion \<^verbatim>\<open>v.(string)\<close> panics.\<close>

datatype panic = InterfaceConversionPanic

text \<open>
  \<^verbatim>\<open>castString\<close> (otel.go, lines 33-39). The argument is an interface value; a missing
  map key gives the nil interface, which is \<open>None\<close> here. The two-value type assertion
  \<^verbatim>\<open>s, _ := v.(string)\<close> leaves \<^verbatim>\<open>s\<close> empty when \<^verbatim>\<open>v\<close> holds no string.
\<close>

definition castString :: "any option \<Rightarrow> string \<Rightarrow> string" where
  "castString v fallback =
     (let s = (case v of Some (AnyString x) \<Rightarrow> x | _ \<Rightarrow> '''')
      in if s = '''' then fallback else s)"

section \<open>Records built by the handlers\<close>

text \<open>
  The fields \<^verbatim>\<open>SessionSecureID\<close> and \<^verbatim>\<open>RequestID\<close> of an error record are pointers:
  the handler stores \<^verbatim>\<open>&sessionID\<close> and \<^verbatim>\<open>&requestID\<close> (lines 146-147), the addresses
  of the variables of the resource iteration that is running. The argument is the index
  of that iteration.
\<close>

datatype strptr = Addr_sessionID nat | Addr_requestID nat

text \<open>
  \<^verbatim>\<open>model.BackendErrorObjectInput\<close>. The other pointer fields are filled with
  \<^verbatim>\<open>pointy.String\<close>, a fresh cell that nothing else writes, and are kept by value.
\<close>

record BackendErrorObjectInput =
  SessionSecureID :: strptr
  RequestID :: strptr
  TraceID :: string
  SpanID :: string
  Event :: string
  Type :: string
  Source :: string
  StackTrace :: string
  Timestamp :: nat
  Payload :: string
  URL :: string

text \<open>\<^verbatim>\<open>clickhouse.LogRow\<close>, with the fields the handlers fill.\<close>

record LogRow =
  RowTimestamp :: nat
  TraceId :: string
  SpanId :: string
  SeverityText :: string
  SeverityNumber :: "32 word"
  ServiceName :: string
  Body :: string
  ResourceAttributes :: "string \<rightharpoonup> string"
  LogAttributes :: "string \<rightharpoonup> string"
  ProjectId :: "32 word"
  SecureSessionId :: string

text \<open>
  \<^verbatim>\<open>kafkaqueue.Message\<close>: a backend payload with its \<^verbatim>\<open>SessionSecureID\<close>, its
  \<^verbatim>\<open>ProjectVerboseID\<close> and its \<^verbatim>\<open>Errors\<close>, or a log payload with its \<^verbatim>\<open>LogRows\<close>.
  A call of \<^verbatim>\<open>Submit\<close> names the queue, the message and the partition key.
\<close>

datatype message =
    PushBackendPayload "string option" "string option" "BackendErrorObjectInput list"
  | PushLogs "LogRow list"

datatype queue = ProducerQueue | BatchedQueue

type_synonym call = "queue \<times> message \<times> string"

text \<open>
  The variables \<^verbatim>\<open>projectID, sessionID, requestID\<close> declared at the head of every
  iteration of the resource loop (line 108 and line 314).
\<close>

record ids =
  projectID :: string
  sessionID :: string
  requestID :: string

definition zero_ids :: ids where
  "zero_ids = \<lparr>projectID = '''', sessionID = '''', requestID = ''''\<rparr>"

text \<open>
  Constants and functions that the handler takes from other packages of the repository
  and from third-party libraries; none of them is defined in otel.go. They are parameters
  of the model. \<^verbatim>\<open>json_Marshal\<close>, \<^verbatim>\<open>FromVerboseID\<close> and \<^verbatim>\<open>Submit\<close> return an error
  message on the left or in \<open>Some\<close>; \<^verbatim>\<open>ParseLevel\<close> returns a level together with an
  optional error, as logrus does. \<^verbatim>\<open>Submit\<close> also receives the calls made to the queues
  earlier in the same request, so that any pattern of failures can be described.
\<close>

record env =
  ProjectIDAttribute :: string
  SessionIDAttribute :: string
  RequestIDAttribute :: string
  ErrorURLKey :: string
  LogName :: string
  LogSeverityKey :: string
  LogMessageKey :: string
  FromVerboseID :: "string \<Rightarrow> string + int"
  formatStructureStackTrace :: "string \<Rightarrow> string"
  json_Marshal :: "attrs \<Rightarrow> string + string"
  ParseLevel :: "string \<Rightarrow> 32 word \<times> string option"
  Submit :: "call list \<Rightarrow> call \<Rightarrow> string option"

text \<open>The single-value type assertion \<^verbatim>\<open>v.(string)\<close>.\<close>

definition assert_string :: "any \<Rightarrow> panic + string" where
  "assert_string v = (case v of AnyString s \<Rightarrow> Inr s | _ \<Rightarrow> Inl InterfaceConversionPanic)"

text \<open>
  \<^verbatim>\<open>setHighlightAttributes\<close> (lines 41-57). The three pointer arguments always address
  the three variables of the current resource iteration, so the pointees are passed in and
  handed back as one \<open>ids\<close> value.
\<close>

definition setHighlightAttributes :: "env \<Rightarrow> attrs \<Rightarrow> ids \<Rightarrow> panic + ids" where
  "setHighlightAttributes E attributes v =
     (case (case attributes (ProjectIDAttribute E) of
              None \<Rightarrow> Inr v
            | Some p \<Rightarrow>
                (case assert_string p of
                   Inl e \<Rightarrow> Inl e
                 | Inr ps \<Rightarrow> Inr (if ps \<noteq> '''' then v\<lparr>projectID := ps\<rparr> else v))) of
        Inl e \<Rightarrow> Inl e
      | Inr v1 \<Rightarrow>
     (case (case attributes (SessionIDAttribute E) of
              None \<Rightarrow> Inr v1
            | Some s \<Rightarrow>
                (case assert_string s of
                   Inl e \<Rightarrow> Inl e
                 | Inr ss \<Rightarrow> Inr (if ss \<noteq> '''' then v1\<lparr>sessionID := ss\<rparr> else v1))) of
        Inl e \<Rightarrow> Inl e
      | Inr v2 \<Rightarrow>
     (case attributes (RequestIDAttribute E) of
        None \<Rightarrow> Inr v2
      | Some r \<Rightarrow>
          (case assert_string r of
             Inl e \<Rightarrow> Inl e
           | Inr rs \<Rightarrow> Inr (if rs \<noteq> '''' then v2\<lparr>requestID := rs\<rparr> else v2)))))"

section \<open>The project id normalizer\<close>

text \<open>
  \<^verbatim>\<open>strconv.ParseInt(s, 10, 32)\<close> of the Go standard library: an optional sign, then
  \<^verbatim>\<open>strconv.ParseUint\<close> on the rest with the maximal value \<open>2^32 - 1\<close>, then the range
  check against \<open>2^31\<close>. Both return a value together with an optional error.
\<close>

datatype NumError = ErrSyntax | ErrRange

fun ParseUint_digits :: "string \<Rightarrow> nat \<Rightarrow> nat \<times> NumError option" where
  "ParseUint_digits [] n = (n, None)"
| "ParseUint_digits (c # cs) n =
     (let b = (of_char c :: nat) in
      if 48 \<le> b \<and> b \<le> 57 then
        (let d = b - 48 in
         if n \<ge> (2 ^ 64 - 1) div 10 + 1 then (2 ^ 32 - 1, Some ErrRange)
         else
           (let n10 = n * 10; n1 = (n10 + d) mod 2 ^ 64 in
            if n1 < n10 \<or> n1 > 2 ^ 32 - 1 then (2 ^ 32 - 1, Some ErrRange)
            else ParseUint_digits cs n1))
      else (0, Some ErrSyntax))"

definition ParseUint_10_32 :: "string \<Rightarrow> nat \<times> NumError option" where
  "ParseUint_10_32 s = (if s = '''' then (0, Some ErrSyntax) else ParseUint_digits s 0)"

definition ParseInt_10_32 :: "string \<Rightarrow> int \<times> NumError option" where
  "ParseInt_10_32 s =
     (if s = '''' then (0, Some ErrSyntax)
      else
        (let neg = (hd s = CHR ''-'');
             s1 = (if hd s = CHR ''+'' \<or> hd s = CHR ''-'' then tl s else s);
             (un, err) = ParseUint_10_32 s1
         in if err \<noteq> None \<and> err \<noteq> Some ErrRange then (0, err)
            else if \<not> neg \<and> un \<ge> 2 ^ 31 then (2 ^ 31 - 1, Some ErrRange)
            else if neg \<and> un > 2 ^ 31 then (- (2 ^ 31), Some ErrRange)
            else (if neg then - int un else int un, None)))"

text \<open>\<^verbatim>\<open>projectToInt\<close> (lines 59-69).\<close>

definition projectToInt :: "env \<Rightarrow> string \<Rightarrow> string + int" where
  "projectToInt E p =
     (case ParseInt_10_32 p of
        (i, None) \<Rightarrow> Inr i
      | (_, Some _) \<Rightarrow>
          (case FromVerboseID E p of
             Inr i2 \<Rightarrow> Inr i2
           | Inl _ \<Rightarrow> Inl (''invalid project id '' @ p)))"

section \<open>The trace handler: classification\<close>

text \<open>
  The decoded trace export request, as the loops of \<^verbatim>\<open>HandleTrace\<close> read it: resource
  groups, their scope groups, their spans and the events of each span. Trace and span
  identifiers are kept in the string form that \<^verbatim>\<open>String()\<close> returns, timestamps as
  nanoseconds.
\<close>

record SpanEvent =
  ev_Name :: string
  ev_Attributes :: attrs
  ev_Timestamp :: nat

record Span =
  sp_Attributes :: attrs
  sp_TraceID :: string
  sp_SpanID :: string
  sp_Events :: "SpanEvent list"

record ScopeSpans =
  ss_Name :: string
  ss_Spans :: "Span list"

record ResourceSpans =
  rs_Attributes :: attrs
  rs_ScopeSpans :: "ScopeSpans list"

text \<open>Names fixed by the OpenTelemetry semantic conventions (package semconv v1.17.0).\<close>

definition ExceptionEventName :: string where
  "ExceptionEventName = ''exception''"

definition ExceptionTypeKey :: string where
  "ExceptionTypeKey = ''exception.type''"

definition ExceptionMessageKey :: string where
  "ExceptionMessageKey = ''exception.message''"

definition ExceptionStacktraceKey :: string where
  "ExceptionStacktraceKey = ''exception.stacktrace''"

definition TelemetrySDKLanguageKey :: string where
  "TelemetrySDKLanguageKey = ''telemetry.sdk.language''"

definition ServiceNameKey :: string where
  "ServiceNameKey = ''service.name''"

text \<open>The messages written to the log, one constructor for each call site.\<close>

datatype diag =
    ErrorFailedToFormatErrorAttributes
  | WarnExceptionNoStacktrace
  | WarnExceptionNoTypeNoMessage
  | ErrorNoSessionNoProject BackendErrorObjectInput
  | WarnLogNoMessage
  | ErrorSpanLogInvalidProjectID string string
  | ErrorSpanLogNoProject LogRow
  | ErrorLogInvalidProjectID string
  | ErrorLogNoProject LogRow
  | ErrorFailedToSubmitSessionErrors string
  | ErrorFailedToSubmitProjectErrors string

text \<open>
  The state of one request: the identifier variables of every resource iteration
  (\<open>vars st i\<close> holds those of iteration \<open>i\<close>), the three grouping maps and the log
  output.
\<close>

record state =
  vars :: "nat \<Rightarrow> ids"
  projectErrors :: "string \<rightharpoonup> BackendErrorObjectInput list"
  traceErrors :: "string \<rightharpoonup> BackendErrorObjectInput list"
  projectLogs :: "string \<rightharpoonup> LogRow list"
  logged :: "diag list"

definition init_state :: state where
  "init_state = \<lparr>vars = (\<lambda>_. zero_ids), projectErrors = Map.empty, traceErrors = Map.empty,
                  projectLogs = Map.empty, logged = []\<rparr>"

text \<open>Reading a pointer field of an error record in a state.\<close>

fun deref :: "state \<Rightarrow> strptr \<Rightarrow> string" where
  "deref st (Addr_sessionID i) = sessionID (vars st i)"
| "deref st (Addr_requestID i) = requestID (vars st i)"

text \<open>
  The grouping step \<^verbatim>\<open>if _, ok := m[k]; !ok { m[k] = [] }; m[k] = append(m[k], x)\<close>
  (lines 165-168, 170-173, 221-224, 359-362).
\<close>

definition appendTo :: "(string \<rightharpoonup> 'a list) \<Rightarrow> string \<Rightarrow> 'a \<Rightarrow> (string \<rightharpoonup> 'a list)" where
  "appendTo m k x =
     (let m1 = (if m k = None then m(k \<mapsto> []) else m)
      in m1(k \<mapsto> (case m1 k of None \<Rightarrow> [] | Some xs \<Rightarrow> xs) @ [x]))"

fun strings_Join :: "string list \<Rightarrow> string \<Rightarrow> string" where
  "strings_Join [] sep = ''''"
| "strings_Join [x] sep = x"
| "strings_Join (x # y # ys) sep = x @ sep @ strings_Join (y # ys) sep"

text \<open>
  Lines 133-163: the exception branch up to the error record. \<open>Inl\<close> is the warning of
  the \<^verbatim>\<open>continue\<close> that drops the event.
\<close>

definition exceptionInput ::
  "env \<Rightarrow> nat \<Rightarrow> string \<Rightarrow> string \<Rightarrow> string \<Rightarrow> Span \<Rightarrow> string \<Rightarrow> SpanEvent
     \<Rightarrow> diag + BackendErrorObjectInput" where
  "exceptionInput E i sdkLanguage serviceName scopeName span tagsBytes event =
     (let eventAttributes = ev_Attributes event;
          excType = castString (eventAttributes ExceptionTypeKey) '''';
          excMessage = castString (eventAttributes ExceptionMessageKey) '''';
          stackTrace = castString (eventAttributes ExceptionStacktraceKey) '''';
          errorUrl = castString (eventAttributes (ErrorURLKey E)) ''''
      in if stackTrace = '''' then Inl WarnExceptionNoStacktrace
         else if excType = '''' \<and> excMessage = '''' then Inl WarnExceptionNoTypeNoMessage
         else Inr \<lparr>SessionSecureID = Addr_sessionID i,
                    RequestID = Addr_requestID i,
                    TraceID = sp_TraceID span,
                    SpanID = sp_SpanID span,
                    Event = castString (Some (AnyString excMessage)) '''',
                    Type = castString (Some (AnyString excType)) ''BACKEND'',
                    Source = strings_Join
                      (filter (\<lambda>s. s \<noteq> '''') [sdkLanguage, serviceName, scopeName]) ''-'',
                    StackTrace = formatStructureStackTrace E stackTrace,
                    Timestamp = ev_Timestamp event,
                    Payload = tagsBytes,
                    URL = errorUrl\<rparr>)"

text \<open>Lines 164-178: the error record goes to one grouping map, or is logged and dropped.\<close>

definition routeError :: "nat \<Rightarrow> BackendErrorObjectInput \<Rightarrow> state \<Rightarrow> state" where
  "routeError i err st =
     (let sID = sessionID (vars st i); pID = projectID (vars st i)
      in if sID \<noteq> '''' then st\<lparr>traceErrors := appendTo (traceErrors st) sID err\<rparr>
         else if pID \<noteq> '''' then st\<lparr>projectErrors := appendTo (projectErrors st) pID err\<rparr>
         else st\<lparr>logged := logged st @ [ErrorNoSessionNoProject err]\<rparr>)"

text \<open>
  The loops at lines 192-197, 332-337 and 339-344: the string-valued, non-empty entries
  of an attribute map.
\<close>

definition stringEntries :: "attrs \<Rightarrow> (string \<rightharpoonup> string)" where
  "stringEntries attributes =
     (\<lambda>k. case attributes k of
             None \<Rightarrow> None
           | Some v \<Rightarrow>
               (let vStr = castString (Some v) ''''
                in if vStr \<noteq> '''' then Some (castString (Some v) '''') else None))"

text \<open>
  Lines 180-219: the log branch up to the log row. \<open>v\<close> holds the values of the
  identifier variables, to which the event's attributes were applied before.
\<close>

definition spanLogRow ::
  "env \<Rightarrow> ids \<Rightarrow> attrs \<Rightarrow> string \<Rightarrow> Span \<Rightarrow> SpanEvent \<Rightarrow> diag + LogRow" where
  "spanLogRow E v resourceAttributes serviceName span event =
     (let eventAttributes = ev_Attributes event;
          logSev = castString (eventAttributes (LogSeverityKey E)) ''unknown'';
          logMessage = castString (eventAttributes (LogMessageKey E)) ''''
      in if logMessage = '''' then Inl WarnLogNoMessage
         else
           (case projectToInt E (projectID v) of
              Inl _ \<Rightarrow> Inl (ErrorSpanLogInvalidProjectID (projectID v) logMessage)
            | Inr projectIDInt \<Rightarrow>
                (let resourceAttributesMap = stringEntries resourceAttributes;
                     logAttributesMap =
                       (\<lambda>k. case eventAttributes k of
                               None \<Rightarrow> None
                             | Some x \<Rightarrow>
                                 (let vStr = castString (Some x) ''''
                                  in if vStr = '''' \<or> k = LogMessageKey E \<or> k = LogSeverityKey E
                                     then None
                                     else Some (castString (Some x) '''')));
                     lvl = fst (ParseLevel E logSev)
                 in Inr \<lparr>RowTimestamp = ev_Timestamp event,
                          TraceId = sp_TraceID span,
                          SpanId = sp_SpanID span,
                          SeverityText = logSev,
                          SeverityNumber = lvl,
                          ServiceName = serviceName,
                          Body = logMessage,
                          ResourceAttributes = resourceAttributesMap,
                          LogAttributes = logAttributesMap,
                          ProjectId = word_of_int projectIDInt,
                          SecureSessionId = sessionID v\<rparr>)))"

text \<open>Lines 220-229, and lines 358-367 with their own message.\<close>

definition routeLog :: "nat \<Rightarrow> (LogRow \<Rightarrow> diag) \<Rightarrow> LogRow \<Rightarrow> state \<Rightarrow> state" where
  "routeLog i noProject logRow st =
     (let pID = projectID (vars st i)
      in if pID \<noteq> '''' then st\<lparr>projectLogs := appendTo (projectLogs st) pID logRow\<rparr>
         else st\<lparr>logged := logged st @ [noProject logRow]\<rparr>)"

text \<open>
  Lines 132-230: the classification of one event, once its attributes were applied to the
  identifier variables.
\<close>

definition classifyEvent ::
  "env \<Rightarrow> nat \<Rightarrow> attrs \<Rightarrow> string \<Rightarrow> string \<Rightarrow> string \<Rightarrow> Span \<Rightarrow> string \<Rightarrow> SpanEvent
     \<Rightarrow> state \<Rightarrow> state" where
  "classifyEvent E i resourceAttributes sdkLanguage serviceName scopeName span tagsBytes event st =
     (if ev_Name event = ExceptionEventName then
        (case exceptionInput E i sdkLanguage serviceName scopeName span tagsBytes event of
           Inl d \<Rightarrow> st\<lparr>logged := logged st @ [d]\<rparr>
         | Inr err \<Rightarrow> routeError i err st)
      else if ev_Name event = LogName E then
        (case spanLogRow E (vars st i) resourceAttributes serviceName span event of
           Inl d \<Rightarrow> st\<lparr>logged := logged st @ [d]\<rparr>
         | Inr logRow \<Rightarrow> routeLog i ErrorSpanLogNoProject logRow st)
      else st)"

text \<open>Lines 129-230: the body of the event loop. A panic leaves the handler.\<close>

definition eventBody ::
  "env \<Rightarrow> nat \<Rightarrow> attrs \<Rightarrow> string \<Rightarrow> string \<Rightarrow> string \<Rightarrow> Span \<Rightarrow> string \<Rightarrow> SpanEvent
     \<Rightarrow> state \<Rightarrow> panic + state" where
  "eventBody E i resourceAttributes sdkLanguage serviceName scopeName span tagsBytes event st =
     (case setHighlightAttributes E (ev_Attributes event) (vars st i) of
        Inl p \<Rightarrow> Inl p
      | Inr v \<Rightarrow>
          Inr (classifyEvent E i resourceAttributes sdkLanguage serviceName scopeName span
                 tagsBytes event (st\<lparr>vars := (vars st)(i := v)\<rparr>)))"

fun eventsLoop ::
  "env \<Rightarrow> nat \<Rightarrow> attrs \<Rightarrow> string \<Rightarrow> string \<Rightarrow> string \<Rightarrow> Span \<Rightarrow> string \<Rightarrow> SpanEvent list
     \<Rightarrow> state \<Rightarrow> panic + state" where
  "eventsLoop E i resourceAttributes sdkLanguage serviceName scopeName span tagsBytes [] st =
     Inr st"
| "eventsLoop E i resourceAttributes sdkLanguage serviceName scopeName span tagsBytes
     (event # events) st =
     (case eventBody E i resourceAttributes sdkLanguage serviceName scopeName span tagsBytes
             event st of
        Inl p \<Rightarrow> Inl p
      | Inr st1 \<Rightarrow>
          eventsLoop E i resourceAttributes sdkLanguage serviceName scopeName span tagsBytes
            events st1)"

text \<open>
  Lines 119-231: the body of the span loop. When the span attributes cannot be
  serialised, the span is skipped before its attributes are applied.
\<close>

definition spanBody ::
  "env \<Rightarrow> nat \<Rightarrow> attrs \<Rightarrow> string \<Rightarrow> string \<Rightarrow> string \<Rightarrow> Span \<Rightarrow> state \<Rightarrow> panic + state" where
  "spanBody E i resourceAttributes sdkLanguage serviceName scopeName span st =
     (let spanAttributes = sp_Attributes span
      in case json_Marshal E spanAttributes of
           Inl _ \<Rightarrow> Inr (st\<lparr>logged := logged st @ [ErrorFailedToFormatErrorAttributes]\<rparr>)
         | Inr tagsBytes \<Rightarrow>
             (case setHighlightAttributes E spanAttributes (vars st i) of
                Inl p \<Rightarrow> Inl p
              | Inr v \<Rightarrow>
                  eventsLoop E i resourceAttributes sdkLanguage serviceName scopeName span
                    tagsBytes (sp_Events span) (st\<lparr>vars := (vars st)(i := v)\<rparr>)))"

fun spansLoop ::
  "env \<Rightarrow> nat \<Rightarrow> attrs \<Rightarrow> string \<Rightarrow> string \<Rightarrow> string \<Rightarrow> Span list \<Rightarrow> state \<Rightarrow> panic + state" where
  "spansLoop E i resourceAttributes sdkLanguage serviceName scopeName [] st = Inr st"
| "spansLoop E i resourceAttributes sdkLanguage serviceName scopeName (span # spans) st =
     (case spanBody E i resourceAttributes sdkLanguage serviceName scopeName span st of
        Inl p \<Rightarrow> Inl p
      | Inr st1 \<Rightarrow> spansLoop E i resourceAttributes sdkLanguage serviceName scopeName spans st1)"

text \<open>Lines 115-233: the scope loop.\<close>

fun scopesLoop ::
  "env \<Rightarrow> nat \<Rightarrow> attrs \<Rightarrow> string \<Rightarrow> string \<Rightarrow> ScopeSpans list \<Rightarrow> state \<Rightarrow> panic + state" where
  "scopesLoop E i resourceAttributes sdkLanguage serviceName [] st = Inr st"
| "scopesLoop E i resourceAttributes sdkLanguage serviceName (scope # scopes) st =
     (case spansLoop E i resourceAttributes sdkLanguage serviceName (ss_Name scope)
             (ss_Spans scope) st of
        Inl p \<Rightarrow> Inl p
      | Inr st1 \<Rightarrow> scopesLoop E i resourceAttributes sdkLanguage serviceName scopes st1)"

text \<open>
  Lines 108-233: the body of the resource loop. Iteration \<open>i\<close> declares its own
  identifier variables, which start empty.
\<close>

definition resourceBody :: "env \<Rightarrow> nat \<Rightarrow> ResourceSpans \<Rightarrow> state \<Rightarrow> panic + state" where
  "resourceBody E i resourceSpans st =
     (let st0 = st\<lparr>vars := (vars st)(i := zero_ids)\<rparr>;
          resourceAttributes = rs_Attributes resourceSpans;
          sdkLanguage = castString (resourceAttributes TelemetrySDKLanguageKey) '''';
          serviceName = castString (resourceAttributes ServiceNameKey) ''''
      in case setHighlightAttributes E resourceAttributes (vars st0 i) of
           Inl p \<Rightarrow> Inl p
         | Inr v \<Rightarrow>
             scopesLoop E i resourceAttributes sdkLanguage serviceName
               (rs_ScopeSpans resourceSpans) (st0\<lparr>vars := (vars st0)(i := v)\<rparr>))"

fun resourcesLoop :: "env \<Rightarrow> nat \<Rightarrow> ResourceSpans list \<Rightarrow> state \<Rightarrow> panic + state" where
  "resourcesLoop E i [] st = Inr st"
| "resourcesLoop E i (resourceSpans # rest) st =
     (case resourceBody E i resourceSpans st of
        Inl p \<Rightarrow> Inl p
      | Inr st1 \<Rightarrow> resourcesLoop E (Suc i) rest st1)"

text \<open>Lines 101-234: classification of a decoded trace request.\<close>

definition classifyTrace :: "env \<Rightarrow> ResourceSpans list \<Rightarrow> panic + state" where
  "classifyTrace E req = resourcesLoop E 0 req init_state"

section \<open>The trace handler: routing\<close>

text \<open>The slice stored under a key of a grouping map; a missing key has none.\<close>

definition bucket :: "(string \<rightharpoonup> 'a list) \<Rightarrow> string \<Rightarrow> 'a list" where
  "bucket m k = (case m k of None \<Rightarrow> [] | Some xs \<Rightarrow> xs)"

text \<open>
  Go leaves the order of \<^verbatim>\<open>range\<close> over a map open. The order in which a loop visits the
  keys is an argument of the model; \<open>rangeOrder m ks\<close> says that \<open>ks\<close> is such an order
  for the map \<open>m\<close>.
\<close>

definition rangeOrder :: "(string \<rightharpoonup> 'a) \<Rightarrow> string list \<Rightarrow> bool" where
  "rangeOrder m ks \<longleftrightarrow> distinct ks \<and> set ks = dom m"

text \<open>
  The calls of \<^verbatim>\<open>Submit\<close> that the loops at lines 236-248, 250-262 and 264-275 (and
  372-383) make when no call fails, for the key order \<open>ks\<close>. A message takes the address
  of the loop variable that holds the key; it is kept here with the key that the variable
  holds during the call.
\<close>

definition sessionErrorCalls :: "state \<Rightarrow> string list \<Rightarrow> call list" where
  "sessionErrorCalls st ks =
     map (\<lambda>sID. (ProducerQueue,
                  PushBackendPayload (Some sID) None (bucket (traceErrors st) sID), sID)) ks"

definition projectErrorCalls :: "state \<Rightarrow> string list \<Rightarrow> call list" where
  "projectErrorCalls st ks =
     map (\<lambda>pID. (ProducerQueue,
                  PushBackendPayload None (Some pID) (bucket (projectErrors st) pID), pID)) ks"

definition projectLogCalls :: "state \<Rightarrow> string list \<Rightarrow> call list" where
  "projectLogCalls st ks =
     map (\<lambda>pID. (BatchedQueue, PushLogs (bucket (projectLogs st) pID), pID)) ks"

text \<open>
  One submission loop: each call is made in turn; the first error ends the loop, and the
  handler. \<open>made\<close> lists the calls made so far in the request, the failing one included.
\<close>

fun submitLoop :: "env \<Rightarrow> call list \<Rightarrow> call list \<Rightarrow> string option \<times> call list" where
  "submitLoop E [] made = (None, made)"
| "submitLoop E (c # cs) made =
     (case Submit E made c of
        Some err \<Rightarrow> (Some err, made @ [c])
      | None \<Rightarrow> submitLoop E cs (made @ [c]))"

definition StatusOK :: nat where
  "StatusOK = 200"

definition StatusServiceUnavailable :: nat where
  "StatusServiceUnavailable = 503"

text \<open>
  What a handler leaves behind: the status code written, the calls of \<^verbatim>\<open>Submit\<close> it
  made, and the final state.
\<close>

record response =
  status :: nat
  submitted :: "call list"
  final :: state

text \<open>
  \<^verbatim>\<open>HandleTrace\<close> from line 101 on, for a request that was read, decompressed and decoded.
  \<open>ks1\<close>, \<open>ks2\<close> and \<open>ks3\<close> are the orders in which the three loops visit the keys of
  \<^verbatim>\<open>traceErrors\<close>, \<^verbatim>\<open>projectErrors\<close> and \<^verbatim>\<open>projectLogs\<close>.
\<close>

definition HandleTrace ::
  "env \<Rightarrow> string list \<Rightarrow> string list \<Rightarrow> string list \<Rightarrow> ResourceSpans list
     \<Rightarrow> panic + response" where
  "HandleTrace E ks1 ks2 ks3 req =
     (case classifyTrace E req of
        Inl p \<Rightarrow> Inl p
      | Inr st \<Rightarrow>
          Inr
            (case submitLoop E (sessionErrorCalls st ks1) [] of
               (Some err, made) \<Rightarrow>
                 \<lparr>status = StatusServiceUnavailable, submitted = made,
                  final = st\<lparr>logged := logged st @ [ErrorFailedToSubmitSessionErrors err]\<rparr>\<rparr>
             | (None, made1) \<Rightarrow>
                 (case submitLoop E (projectErrorCalls st ks2) made1 of
                    (Some err, made) \<Rightarrow>
                      \<lparr>status = StatusServiceUnavailable, submitted = made,
                       final = st\<lparr>logged := logged st @ [ErrorFailedToSubmitProjectErrors err]\<rparr>\<rparr>
                  | (None, made2) \<Rightarrow>
                      (case submitLoop E (projectLogCalls st ks3) made2 of
                         (Some err, made) \<Rightarrow>
                           \<lparr>status = StatusServiceUnavailable, submitted = made,
                            final =
                              st\<lparr>logged := logged st @ [ErrorFailedToSubmitProjectErrors err]\<rparr>\<rparr>
                       | (None, made3) \<Rightarrow>
                           \<lparr>status = StatusOK, submitted = made3, final = st\<rparr>))))"

section \<open>The log handler\<close>

text \<open>
  The decoded log export request. \<^verbatim>\<open>lr_Body\<close> is the body value; \<^verbatim>\<open>Value_Str\<close> is
  \<^verbatim>\<open>pcommon.Value.Str()\<close>, empty unless the value is a string.
\<close>

record LogRecord =
  lr_Attributes :: attrs
  lr_Timestamp :: nat
  lr_TraceID :: string
  lr_SpanID :: string
  lr_SeverityText :: string
  lr_SeverityNumber :: "32 word"
  lr_Body :: any

record ScopeLogs =
  sl_LogRecords :: "LogRecord list"

record ResourceLogs =
  rl_Attributes :: attrs
  rl_ScopeLogs :: "ScopeLogs list"

definition Value_Str :: "any \<Rightarrow> string" where
  "Value_Str v = (case v of AnyString s \<Rightarrow> s | _ \<Rightarrow> '''')"

text \<open>Lines 326-357: from the project id to the log row.\<close>

definition logRecordRow :: "env \<Rightarrow> ids \<Rightarrow> attrs \<Rightarrow> string \<Rightarrow> LogRecord \<Rightarrow> diag + LogRow" where
  "logRecordRow E v resourceAttributes serviceName logRecord =
     (let logAttributes = lr_Attributes logRecord
      in case projectToInt E (projectID v) of
           Inl _ \<Rightarrow> Inl (ErrorLogInvalidProjectID (projectID v))
         | Inr projectIDInt \<Rightarrow>
             (let resourceAttributesMap = stringEntries resourceAttributes;
                  logAttributesMap = stringEntries logAttributes
              in Inr \<lparr>RowTimestamp = lr_Timestamp logRecord,
                       TraceId = lr_TraceID logRecord,
                       SpanId = lr_SpanID logRecord,
                       SeverityText = lr_SeverityText logRecord,
                       SeverityNumber = lr_SeverityNumber logRecord,
                       ServiceName = serviceName,
                       Body = Value_Str (lr_Body logRecord),
                       ResourceAttributes = resourceAttributesMap,
                       LogAttributes = logAttributesMap,
                       ProjectId = word_of_int projectIDInt,
                       SecureSessionId = sessionID v\<rparr>))"

text \<open>Lines 323-367: the body of the record loop.\<close>

definition logRecordBody ::
  "env \<Rightarrow> nat \<Rightarrow> attrs \<Rightarrow> string \<Rightarrow> LogRecord \<Rightarrow> state \<Rightarrow> panic + state" where
  "logRecordBody E i resourceAttributes serviceName logRecord st =
     (case setHighlightAttributes E (lr_Attributes logRecord) (vars st i) of
        Inl p \<Rightarrow> Inl p
      | Inr v \<Rightarrow>
          (let st1 = st\<lparr>vars := (vars st)(i := v)\<rparr>
           in Inr
             (case logRecordRow E v resourceAttributes serviceName logRecord of
                Inl d \<Rightarrow> st1\<lparr>logged := logged st1 @ [d]\<rparr>
              | Inr logRow \<Rightarrow> routeLog i ErrorLogNoProject logRow st1)))"

fun logRecordsLoop ::
  "env \<Rightarrow> nat \<Rightarrow> attrs \<Rightarrow> string \<Rightarrow> LogRecord list \<Rightarrow> state \<Rightarrow> panic + state" where
  "logRecordsLoop E i resourceAttributes serviceName [] st = Inr st"
| "logRecordsLoop E i resourceAttributes serviceName (logRecord # logRecords) st =
     (case logRecordBody E i resourceAttributes serviceName logRecord st of
        Inl p \<Rightarrow> Inl p
      | Inr st1 \<Rightarrow> logRecordsLoop E i resourceAttributes serviceName logRecords st1)"

fun scopeLogsLoop ::
  "env \<Rightarrow> nat \<Rightarrow> attrs \<Rightarrow> string \<Rightarrow> ScopeLogs list \<Rightarrow> state \<Rightarrow> panic + state" where
  "scopeLogsLoop E i resourceAttributes serviceName [] st = Inr st"
| "scopeLogsLoop E i resourceAttributes serviceName (scope # scopes) st =
     (case logRecordsLoop E i resourceAttributes serviceName (sl_LogRecords scope) st of
        Inl p \<Rightarrow> Inl p
      | Inr st1 \<Rightarrow> scopeLogsLoop E i resourceAttributes serviceName scopes st1)"

text \<open>Lines 314-369: the body of the resource loop.\<close>

definition resourceLogsBody :: "env \<Rightarrow> nat \<Rightarrow> ResourceLogs \<Rightarrow> state \<Rightarrow> panic + state" where
  "resourceLogsBody E i resourceLogs st =
     (let st0 = st\<lparr>vars := (vars st)(i := zero_ids)\<rparr>;
          resourceAttributes = rl_Attributes resourceLogs;
          serviceName = castString (resourceAttributes ServiceNameKey) ''''
      in case setHighlightAttributes E resourceAttributes (vars st0 i) of
           Inl p \<Rightarrow> Inl p
         | Inr v \<Rightarrow>
             scopeLogsLoop E i resourceAttributes serviceName (rl_ScopeLogs resourceLogs)
               (st0\<lparr>vars := (vars st0)(i := v)\<rparr>))"

fun resourceLogsLoop :: "env \<Rightarrow> nat \<Rightarrow> ResourceLogs list \<Rightarrow> state \<Rightarrow> panic + state" where
  "resourceLogsLoop E i [] st = Inr st"
| "resourceLogsLoop E i (resourceLogs # rest) st =
     (case resourceLogsBody E i resourceLogs st of
        Inl p \<Rightarrow> Inl p
      | Inr st1 \<Rightarrow> resourceLogsLoop E (Suc i) rest st1)"

definition classifyLog :: "env \<Rightarrow> ResourceLogs list \<Rightarrow> panic + state" where
  "classifyLog E req = resourceLogsLoop E 0 req init_state"

text \<open>
  \<^verbatim>\<open>HandleLog\<close> from line 310 on; \<open>ks\<close> is the order in which the loop at line 372
  visits the keys of \<^verbatim>\<open>projectLogs\<close>.
\<close>

definition HandleLog :: "env \<Rightarrow> string list \<Rightarrow> ResourceLogs list \<Rightarrow> panic + response" where
  "HandleLog E ks req =
     (case classifyLog E req of
        Inl p \<Rightarrow> Inl p
      | Inr st \<Rightarrow>
          Inr
            (case submitLoop E (projectLogCalls st ks) [] of
               (Some err, made) \<Rightarrow>
                 \<lparr>status = StatusServiceUnavailable, submitted = made,
                  final = st\<lparr>logged := logged st @ [ErrorFailedToSubmitProjectErrors err]\<rparr>\<rparr>
             | (None, made1) \<Rightarrow> \<lparr>status = StatusOK, submitted = made1, final = st\<rparr>))"

section \<open>The level parser\<close>

text \<open>
  \<^verbatim>\<open>log.ParseLevel\<close> is \<^verbatim>\<open>ParseLevel\<close> of the logrus library: it compares
  \<^verbatim>\<open>strings.ToLower(lvl)\<close> with the seven level names (\<^verbatim>\<open>warn\<close> has the second spelling
  \<^verbatim>\<open>warning\<close>) and returns the level, \<^verbatim>\<open>PanicLevel = 0\<close> up to \<^verbatim>\<open>TraceLevel = 6\<close>; for any
  other text it returns the zero value of \<^verbatim>\<open>Level\<close> together with an error.

  \<^verbatim>\<open>strings.ToLower\<close> is kept as far as it matters for a comparison with names made of
  ASCII letters: the ASCII capitals are lower-cased, and so are the only two other
  characters whose lower case is an ASCII letter, U+0130 (bytes \<open>C4 B0\<close>, lower case \<open>i\<close>)
  and U+212A (bytes \<open>E2 84 AA\<close>, lower case \<open>k\<close>). The bytes of every other character are
  left as they are, where Go writes the bytes of its lower case, which are not ASCII
  either.
\<close>

definition toLowerByte :: "char \<Rightarrow> char" where
  "toLowerByte c =
     (if 65 \<le> (of_char c :: nat) \<and> (of_char c :: nat) \<le> 90
      then char_of ((of_char c :: nat) + 32)
      else c)"

fun strings_ToLower :: "string \<Rightarrow> string" where
  "strings_ToLower [] = []"
| "strings_ToLower [c] = [toLowerByte c]"
| "strings_ToLower (c # d # cs) =
     (if (of_char c :: nat) = 196 \<and> (of_char d :: nat) = 176
      then CHR ''i'' # strings_ToLower cs
      else if (of_char c :: nat) = 226 \<and> (of_char d :: nat) = 132 then
        (case cs of
           [] \<Rightarrow> toLowerByte c # strings_ToLower (d # cs)
         | e # rest \<Rightarrow>
             if (of_char e :: nat) = 170 then CHR ''k'' # strings_ToLower rest
             else toLowerByte c # strings_ToLower (d # cs))
      else toLowerByte c # strings_ToLower (d # cs))"

definition logrus_ParseLevel :: "string \<Rightarrow> 32 word \<times> string option" where
  "logrus_ParseLevel lvl =
     (let l = strings_ToLower lvl
      in if l = ''panic'' then (0, None)
         else if l = ''fatal'' then (1, None)
         else if l = ''error'' then (2, None)
         else if l = ''warn'' \<or> l = ''warning'' then (3, None)
         else if l = ''info'' then (4, None)
         else if l = ''debug'' then (5, None)
         else if l = ''trace'' then (6, None)
         else (0, Some (''not a valid logrus Level: '' @ lvl)))"

section \<open>An environment for examples\<close>

text \<open>
  To run the model on concrete requests, this environment gives the parameters values:
  attribute names in the style of the highlight SDK, the level parser of logrus, a
  decoder of verbose ids that accepts nothing, a serialiser that always succeeds and a
  queue that accepts every message.
\<close>

definition example_env :: env where
  "example_env =
     \<lparr>ProjectIDAttribute = ''highlight.project_id'',
      SessionIDAttribute = ''highlight.session_id'',
      RequestIDAttribute = ''highlight.trace_id'',
      ErrorURLKey = ''URL'',
      LogName = ''log'',
      LogSeverityKey = ''log.severity'',
      LogMessageKey = ''log.message'',
      FromVerboseID = (\<lambda>s. Inl ''unsupported verbose id''),
      formatStructureStackTrace = (\<lambda>s. s),
      json_Marshal = (\<lambda>a. Inr ''{}''),
      ParseLevel = logrus_ParseLevel,
      Submit = (\<lambda>made c. None)\<rparr>"

section \<open>Notions used to state the properties\<close>

text \<open>
  The handlers call \<^verbatim>\<open>setHighlightAttributes\<close> on one attribute map after the other
  (lines 113, 126 and 131), always on the same variables. \<open>resolve\<close> is that
  succession of calls on a list of maps, outermost first.
\<close>

fun resolve :: "env \<Rightarrow> attrs list \<Rightarrow> ids \<Rightarrow> panic + ids" where
  "resolve E [] v = Inr v"
| "resolve E (m # ms) v =
     (case setHighlightAttributes E m v of
        Inl p \<Rightarrow> Inl p
      | Inr v1 \<Rightarrow> resolve E ms v1)"

text \<open>
  The traversal of one resource group, flattened: a span that cannot be serialised is
  skipped, any other span applies its attributes and then visits its events.
\<close>

datatype visit =
    VisitSkippedSpan
  | VisitSpanAttributes attrs
  | VisitEvent string Span string SpanEvent

definition span_visits :: "env \<Rightarrow> string \<Rightarrow> Span \<Rightarrow> visit list" where
  "span_visits E scopeName span =
     (case json_Marshal E (sp_Attributes span) of
        Inl _ \<Rightarrow> [VisitSkippedSpan]
      | Inr tagsBytes \<Rightarrow>
          VisitSpanAttributes (sp_Attributes span)
            # map (VisitEvent scopeName span tagsBytes) (sp_Events span))"

definition scope_visits :: "env \<Rightarrow> ScopeSpans \<Rightarrow> visit list" where
  "scope_visits E scope = concat (map (span_visits E (ss_Name scope)) (ss_Spans scope))"

definition resource_visits :: "env \<Rightarrow> ResourceSpans \<Rightarrow> visit list" where
  "resource_visits E resourceSpans = concat (map (scope_visits E) (rs_ScopeSpans resourceSpans))"

text \<open>The attribute maps that a list of visits applies to the identifier variables.\<close>

fun visit_maps :: "visit list \<Rightarrow> attrs list" where
  "visit_maps [] = []"
| "visit_maps (VisitSkippedSpan # vs) = visit_maps vs"
| "visit_maps (VisitSpanAttributes a # vs) = a # visit_maps vs"
| "visit_maps (VisitEvent scopeName span tagsBytes event # vs) = ev_Attributes event # visit_maps vs"

text \<open>What one visit does to the state, and a list of visits in order.\<close>

fun visitBody ::
  "env \<Rightarrow> nat \<Rightarrow> attrs \<Rightarrow> string \<Rightarrow> string \<Rightarrow> visit \<Rightarrow> state \<Rightarrow> panic + state" where
  "visitBody E i resourceAttributes sdkLanguage serviceName VisitSkippedSpan st =
     Inr (st\<lparr>logged := logged st @ [ErrorFailedToFormatErrorAttributes]\<rparr>)"
| "visitBody E i resourceAttributes sdkLanguage serviceName (VisitSpanAttributes a) st =
     (case setHighlightAttributes E a (vars st i) of
        Inl p \<Rightarrow> Inl p
      | Inr v \<Rightarrow> Inr (st\<lparr>vars := (vars st)(i := v)\<rparr>))"
| "visitBody E i resourceAttributes sdkLanguage serviceName
     (VisitEvent scopeName span tagsBytes event) st =
     eventBody E i resourceAttributes sdkLanguage serviceName scopeName span tagsBytes event st"

fun visitsLoop ::
  "env \<Rightarrow> nat \<Rightarrow> attrs \<Rightarrow> string \<Rightarrow> string \<Rightarrow> visit list \<Rightarrow> state \<Rightarrow> panic + state" where
  "visitsLoop E i resourceAttributes sdkLanguage serviceName [] st = Inr st"
| "visitsLoop E i resourceAttributes sdkLanguage serviceName (x # xs) st =
     (case visitBody E i resourceAttributes sdkLanguage serviceName x st of
        Inl p \<Rightarrow> Inl p
      | Inr st1 \<Rightarrow> visitsLoop E i resourceAttributes sdkLanguage serviceName xs st1)"

text \<open>
  \<open>grows st st'\<close>: every slice of the three grouping maps of \<open>st\<close> is still there in
  \<open>st'\<close>, unchanged and in front of whatever was added.
\<close>

definition grows :: "state \<Rightarrow> state \<Rightarrow> bool" where
  "grows st st' \<longleftrightarrow>
     (\<forall>k. prefix (bucket (traceErrors st) k) (bucket (traceErrors st') k)
        \<and> prefix (bucket (projectErrors st) k) (bucket (projectErrors st') k)
        \<and> prefix (bucket (projectLogs st) k) (bucket (projectLogs st') k))"

text \<open>
  The calls that \<^verbatim>\<open>HandleTrace\<close> makes when none fails, and the position of the first
  call that fails among a list of calls, if there is one.
\<close>

definition traceCalls :: "state \<Rightarrow> string list \<Rightarrow> string list \<Rightarrow> string list \<Rightarrow> call list" where
  "traceCalls st ks1 ks2 ks3 =
     sessionErrorCalls st ks1 @ projectErrorCalls st ks2 @ projectLogCalls st ks3"

definition firstFailure :: "env \<Rightarrow> call list \<Rightarrow> nat \<Rightarrow> bool" where
  "firstFailure E cs n \<longleftrightarrow>
     n < length cs \<and> Submit E (take n cs) (cs ! n) \<noteq> None
       \<and> (\<forall>m<n. Submit E (take m cs) (cs ! m) = None)"

definition noFailure :: "env \<Rightarrow> call list \<Rightarrow> bool" where
  "noFailure E cs \<longleftrightarrow> (\<forall>m<length cs. Submit E (take m cs) (cs ! m) = None)"

text \<open>
  Where the record of an event belongs, in the words of the specification: an error
  record in the session-keyed bucket under its session id when that is non-empty, else in
  the project-keyed bucket under its project id when that is non-empty, else nowhere,
  with a diagnostic; a log row in the log bucket under its project id, or nowhere, with a
  diagnostic. \<open>v\<close> holds the identifiers resolved for the event. An event for which no
  record is built is dropped with the diagnostic of the builder; an event that is neither
  an exception nor a log has no record.
\<close>

datatype placement =
    InSessionBucket string BackendErrorObjectInput
  | InProjectBucket string BackendErrorObjectInput
  | InLogBucket string LogRow
  | Dropped diag
  | NoRecord

definition placement_of ::
  "env \<Rightarrow> nat \<Rightarrow> attrs \<Rightarrow> string \<Rightarrow> string \<Rightarrow> string \<Rightarrow> Span \<Rightarrow> string \<Rightarrow> SpanEvent
     \<Rightarrow> ids \<Rightarrow> placement" where
  "placement_of E i resourceAttributes sdkLanguage serviceName scopeName span tagsBytes event v =
     (if ev_Name event = ExceptionEventName then
        (case exceptionInput E i sdkLanguage serviceName scopeName span tagsBytes event of
           Inl d \<Rightarrow> Dropped d
         | Inr err \<Rightarrow>
             if sessionID v \<noteq> '''' then InSessionBucket (sessionID v) err
             else if projectID v \<noteq> '''' then InProjectBucket (projectID v) err
             else Dropped (ErrorNoSessionNoProject err))
      else if ev_Name event = LogName E then
        (case spanLogRow E v resourceAttributes serviceName span event of
           Inl d \<Rightarrow> Dropped d
         | Inr logRow \<Rightarrow>
             if projectID v \<noteq> '''' then InLogBucket (projectID v) logRow
             else Dropped (ErrorSpanLogNoProject logRow))
      else NoRecord)"

text \<open>
  The placements of a batch in the order of its traversal: for each resource group the
  identifiers start empty and take the resource attributes, then every visit applies its
  attributes to them, and every event is placed with the identifiers reached. A span
  that cannot be serialised is dropped with a diagnostic.
\<close>

fun visit_placements ::
  "env \<Rightarrow> nat \<Rightarrow> attrs \<Rightarrow> string \<Rightarrow> string \<Rightarrow> visit list \<Rightarrow> ids \<Rightarrow> placement list" where
  "visit_placements E i resourceAttributes sdkLanguage serviceName [] v = []"
| "visit_placements E i resourceAttributes sdkLanguage serviceName (VisitSkippedSpan # xs) v =
     Dropped ErrorFailedToFormatErrorAttributes
       # visit_placements E i resourceAttributes sdkLanguage serviceName xs v"
| "visit_placements E i resourceAttributes sdkLanguage serviceName (VisitSpanAttributes a # xs) v =
     (case setHighlightAttributes E a v of
        Inl p \<Rightarrow> []
      | Inr v1 \<Rightarrow> visit_placements E i resourceAttributes sdkLanguage serviceName xs v1)"
| "visit_placements E i resourceAttributes sdkLanguage serviceName
     (VisitEvent scopeName span tagsBytes event # xs) v =
     (case setHighlightAttributes E (ev_Attributes event) v of
        Inl p \<Rightarrow> []
      | Inr v1 \<Rightarrow>
          placement_of E i resourceAttributes sdkLanguage serviceName scopeName span tagsBytes
            event v1
            # visit_placements E i resourceAttributes sdkLanguage serviceName xs v1)"

definition resource_placements :: "env \<Rightarrow> nat \<Rightarrow> ResourceSpans \<Rightarrow> placement list" where
  "resource_placements E i r =
     (case setHighlightAttributes E (rs_Attributes r) zero_ids of
        Inl p \<Rightarrow> []
      | Inr v \<Rightarrow>
          visit_placements E i (rs_Attributes r)
            (castString (rs_Attributes r TelemetrySDKLanguageKey) '''')
            (castString (rs_Attributes r ServiceNameKey) '''')
            (resource_visits E r) v)"

fun batch_placements :: "env \<Rightarrow> nat \<Rightarrow> ResourceSpans list \<Rightarrow> placement list" where
  "batch_placements E i [] = []"
| "batch_placements E i (r # rs) = resource_placements E i r @ batch_placements E (Suc i) rs"

text \<open>
  The records that a list of placements puts under the key \<open>k\<close> of each bucket, in the
  order of the list, and the diagnostics of the records it drops.
\<close>

fun sessionSlice :: "string \<Rightarrow> placement list \<Rightarrow> BackendErrorObjectInput list" where
  "sessionSlice k [] = []"
| "sessionSlice k (InSessionBucket k' err # ps) =
     (if k' = k then err # sessionSlice k ps else sessionSlice k ps)"
| "sessionSlice k (InProjectBucket k' err # ps) = sessionSlice k ps"
| "sessionSlice k (InLogBucket k' logRow # ps) = sessionSlice k ps"
| "sessionSlice k (Dropped d # ps) = sessionSlice k ps"
| "sessionSlice k (NoRecord # ps) = sessionSlice k ps"

fun projectSlice :: "string \<Rightarrow> placement list \<Rightarrow> BackendErrorObjectInput list" where
  "projectSlice k [] = []"
| "projectSlice k (InProjectBucket k' err # ps) =
     (if k' = k then err # projectSlice k ps else projectSlice k ps)"
| "projectSlice k (InSessionBucket k' err # ps) = projectSlice k ps"
| "projectSlice k (InLogBucket k' logRow # ps) = projectSlice k ps"
| "projectSlice k (Dropped d # ps) = projectSlice k ps"
| "projectSlice k (NoRecord # ps) = projectSlice k ps"

fun logSlice :: "string \<Rightarrow> placement list \<Rightarrow> LogRow list" where
  "logSlice k [] = []"
| "logSlice k (InLogBucket k' logRow # ps) =
     (if k' = k then logRow # logSlice k ps else logSlice k ps)"
| "logSlice k (InSessionBucket k' err # ps) = logSlice k ps"
| "logSlice k (InProjectBucket k' err # ps) = logSlice k ps"
| "logSlice k (Dropped d # ps) = logSlice k ps"
| "logSlice k (NoRecord # ps) = logSlice k ps"

fun diagnostics :: "placement list \<Rightarrow> diag list" where
  "diagnostics [] = []"
| "diagnostics (Dropped d # ps) = d # diagnostics ps"
| "diagnostics (InSessionBucket k' err # ps) = diagnostics ps"
| "diagnostics (InProjectBucket k' err # ps) = diagnostics ps"
| "diagnostics (InLogBucket k' logRow # ps) = diagnostics ps"
| "diagnostics (NoRecord # ps) = diagnostics ps"

section \<open>Example requests\<close>

text \<open>
  An exception event at time \<open>t\<close> with a type, a stack trace and further attributes.
\<close>

definition example_exception :: "nat \<Rightarrow> (string \<times> any) list \<Rightarrow> SpanEvent" where
  "example_exception t extra =
     \<lparr>ev_Name = ''exception'',
      ev_Attributes =
        map_of (extra @ [(''exception.type'', AnyString ''T''),
                         (''exception.stacktrace'', AnyString ''at f'')]),
      ev_Timestamp = t\<rparr>"

text \<open>
  A trace request with one resource group, one scope and one span with three exception
  events: the first names session \<open>A\<close>, the second names no identifier, the third names
  session \<open>B\<close>.
\<close>

definition example_span :: Span where
  "example_span =
     \<lparr>sp_Attributes = Map.empty, sp_TraceID = ''t'', sp_SpanID = ''p'',
      sp_Events =
        [example_exception 1 [(''highlight.session_id'', AnyString ''A'')],
         example_exception 2 [],
         example_exception 3 [(''highlight.session_id'', AnyString ''B'')]]\<rparr>"

definition example_resource :: ResourceSpans where
  "example_resource =
     \<lparr>rs_Attributes = Map.empty,
      rs_ScopeSpans = [\<lparr>ss_Name = ''s'', ss_Spans = [example_span]\<rparr>]\<rparr>"

definition example_trace_request :: "ResourceSpans list" where
  "example_trace_request = [example_resource]"

text \<open>
  A log request with one record of project \<open>1\<close>, whose body is empty and which carries
  the attribute \<^verbatim>\<open>log.message\<close>.
\<close>

definition example_log_record :: LogRecord where
  "example_log_record =
     \<lparr>lr_Attributes = [''log.message'' \<mapsto> AnyString ''m''],
      lr_Timestamp = 1, lr_TraceID = '''', lr_SpanID = '''',
      lr_SeverityText = ''INFO'', lr_SeverityNumber = 9, lr_Body = AnyNil\<rparr>"

definition example_log_request :: "ResourceLogs list" where
  "example_log_request =
     [\<lparr>rl_Attributes = [''highlight.project_id'' \<mapsto> AnyString ''1''],
       rl_ScopeLogs = [\<lparr>sl_LogRecords = [example_log_record]\<rparr>]\<rparr>]"

text \<open>A log event of a span, with a message and a severity that is no level name.\<close>

definition example_log_event :: SpanEvent where
  "example_log_event =
     \<lparr>ev_Name = ''log'',
      ev_Attributes = [''log.message'' \<mapsto> AnyString ''m'', ''log.severity'' \<mapsto> AnyString ''loud''],
      ev_Timestamp = 1\<rparr>"

text \<open>An exception event with a stack trace and a message, and no type.\<close>

definition example_untyped_exception :: SpanEvent where
  "example_untyped_exception =
     \<lparr>ev_Name = ''exception'',
      ev_Attributes = [''exception.message'' \<mapsto> AnyString ''boom'',
                       ''exception.stacktrace'' \<mapsto> AnyString ''at f''],
      ev_Timestamp = 1\<rparr>"

text \<open>An exception event with a type and a message, and no stack trace.\<close>

definition example_bare_exception :: SpanEvent where
  "example_bare_exception =
     \<lparr>ev_Name = ''exception'',
      ev_Attributes = [''exception.type'' \<mapsto> AnyString ''T'',
                       ''exception.message'' \<mapsto> AnyString ''boom''],
      ev_Timestamp = 1\<rparr>"

text \<open>A queue whose second call in a request fails.\<close>

definition example_failing_env :: env where
  "example_failing_env =
     example_env\<lparr>Submit := (\<lambda>made c. if length made = 1 then Some ''unavailable'' else None)\<rparr>"

text \<open>An error record, and a state in which the session variable of iteration 0 holds \<open>A\<close>.\<close>

definition example_error :: BackendErrorObjectInput where
  "example_error =
     \<lparr>SessionSecureID = Addr_sessionID 0, RequestID = Addr_requestID 0, TraceID = ''t'',
      SpanID = ''p'', Event = ''boom'', Type = ''T'', Source = ''s'', StackTrace = ''at f'',
      Timestamp = 1, Payload = ''{}'', URL = ''''\<rparr>"

definition example_state :: state where
  "example_state = init_state\<lparr>vars := (vars init_state)(0 := zero_ids\<lparr>sessionID := ''A''\<rparr>)\<rparr>"

text \<open>A log event of a span whose severity is the level name \<open>panic\<close>.\<close>

definition example_panic_log_event :: SpanEvent where
  "example_panic_log_event =
     \<lparr>ev_Name = ''log'',
      ev_Attributes = [''log.message'' \<mapsto> AnyString ''m'', ''log.severity'' \<mapsto> AnyString ''panic''],
      ev_Timestamp = 2\<rparr>"

section \<open>Resolving the identifiers\<close>

lemma assert_string_Inr: "assert_string p = Inr s \<longleftrightarrow> p = AnyString s"
  by (cases p) (simp_all add: assert_string_def)

text \<open>One reserved key: the block at lines 42-46, and its two copies.\<close>

lemma reserved_key_step:
  assumes "(case a of
              None \<Rightarrow> Inr v
            | Some p \<Rightarrow>
                (case assert_string p of
                   Inl e \<Rightarrow> Inl e
                 | Inr ps \<Rightarrow> Inr (if ps \<noteq> '''' then upd ps v else v))) = Inr v1"
  shows "v1 = v \<or> (\<exists>s. s \<noteq> '''' \<and> a = Some (AnyString s) \<and> v1 = upd s v)"
proof (cases a)
  case None
  with assms show ?thesis by simp
next
  case (Some p)
  show ?thesis
  proof (cases "assert_string p")
    case (Inl e)
    with assms Some show ?thesis by simp
  next
    case (Inr ps)
    then have "p = AnyString ps" by (simp add: assert_string_Inr)
    with assms Some Inr show ?thesis by (cases "ps = ''''") simp_all
  qed
qed

lemma setHighlightAttributes_Inr:
  assumes "setHighlightAttributes E a v = Inr v'"
  shows "\<exists>v1 v2.
           (v1 = v \<or> (\<exists>s. s \<noteq> '''' \<and> a (ProjectIDAttribute E) = Some (AnyString s)
                          \<and> v1 = v\<lparr>projectID := s\<rparr>))
         \<and> (v2 = v1 \<or> (\<exists>s. s \<noteq> '''' \<and> a (SessionIDAttribute E) = Some (AnyString s)
                          \<and> v2 = v1\<lparr>sessionID := s\<rparr>))
         \<and> (v' = v2 \<or> (\<exists>s. s \<noteq> '''' \<and> a (RequestIDAttribute E) = Some (AnyString s)
                          \<and> v' = v2\<lparr>requestID := s\<rparr>))"
proof -
  let ?P = "case a (ProjectIDAttribute E) of
              None \<Rightarrow> Inr v
            | Some p \<Rightarrow>
                (case assert_string p of
                   Inl e \<Rightarrow> Inl e
                 | Inr ps \<Rightarrow> Inr (if ps \<noteq> '''' then (\<lambda>s w. w\<lparr>projectID := s\<rparr>) ps v else v))"
  obtain v1 where p: "?P = Inr v1"
    using assms by (cases ?P) (simp_all add: setHighlightAttributes_def)
  let ?S = "case a (SessionIDAttribute E) of
              None \<Rightarrow> Inr v1
            | Some p \<Rightarrow>
                (case assert_string p of
                   Inl e \<Rightarrow> Inl e
                 | Inr ps \<Rightarrow> Inr (if ps \<noteq> '''' then (\<lambda>s w. w\<lparr>sessionID := s\<rparr>) ps v1 else v1))"
  obtain v2 where s: "?S = Inr v2"
    using assms p by (cases ?S) (simp_all add: setHighlightAttributes_def)
  let ?R = "case a (RequestIDAttribute E) of
              None \<Rightarrow> Inr v2
            | Some p \<Rightarrow>
                (case assert_string p of
                   Inl e \<Rightarrow> Inl e
                 | Inr ps \<Rightarrow> Inr (if ps \<noteq> '''' then (\<lambda>s w. w\<lparr>requestID := s\<rparr>) ps v2 else v2))"
  have r: "?R = Inr v'"
    using assms p s by (simp add: setHighlightAttributes_def)
  from reserved_key_step [where upd = "\<lambda>s w. w\<lparr>projectID := s\<rparr>", OF p]
    reserved_key_step [where upd = "\<lambda>s w. w\<lparr>sessionID := s\<rparr>", OF s]
    reserved_key_step [where upd = "\<lambda>s w. w\<lparr>requestID := s\<rparr>", OF r]
  show ?thesis by blast
qed

lemma setHighlightAttributes_changes:
  assumes "setHighlightAttributes E a v = Inr v'"
  shows "projectID v' \<noteq> projectID v \<longrightarrow>
           projectID v' \<noteq> '''' \<and> a (ProjectIDAttribute E) = Some (AnyString (projectID v'))"
    and "sessionID v' \<noteq> sessionID v \<longrightarrow>
           sessionID v' \<noteq> '''' \<and> a (SessionIDAttribute E) = Some (AnyString (sessionID v'))"
    and "requestID v' \<noteq> requestID v \<longrightarrow>
           requestID v' \<noteq> '''' \<and> a (RequestIDAttribute E) = Some (AnyString (requestID v'))"
  using setHighlightAttributes_Inr [OF assms] by auto

lemma resolve_append:
  "resolve E (xs @ ys) v =
     (case resolve E xs v of Inl p \<Rightarrow> Inl p | Inr v1 \<Rightarrow> resolve E ys v1)"
  by (induction xs arbitrary: v) (simp_all split: sum.splits)

lemma resolve_changes:
  assumes "resolve E ms v = Inr v'"
  shows "projectID v' \<noteq> projectID v \<longrightarrow>
           projectID v' \<noteq> '''' \<and> (\<exists>m\<in>set ms. m (ProjectIDAttribute E) = Some (AnyString (projectID v')))"
    and "sessionID v' \<noteq> sessionID v \<longrightarrow>
           sessionID v' \<noteq> '''' \<and> (\<exists>m\<in>set ms. m (SessionIDAttribute E) = Some (AnyString (sessionID v')))"
    and "requestID v' \<noteq> requestID v \<longrightarrow>
           requestID v' \<noteq> '''' \<and> (\<exists>m\<in>set ms. m (RequestIDAttribute E) = Some (AnyString (requestID v')))"
  using assms
proof (induction ms arbitrary: v)
  case Nil
  { case 1 then show ?case by simp }
  { case 2 then show ?case by simp }
  { case 3 then show ?case by simp }
next
  case (Cons m ms)
  { case 1
    then obtain v1 where a: "setHighlightAttributes E m v = Inr v1" and b: "resolve E ms v1 = Inr v'"
      by (auto split: sum.splits)
    from Cons.IH(1) [OF b] setHighlightAttributes_changes(1) [OF a] show ?case
      by (cases "projectID v' = projectID v1") auto }
  { case 2
    then obtain v1 where a: "setHighlightAttributes E m v = Inr v1" and b: "resolve E ms v1 = Inr v'"
      by (auto split: sum.splits)
    from Cons.IH(2) [OF b] setHighlightAttributes_changes(2) [OF a] show ?case
      by (cases "sessionID v' = sessionID v1") auto }
  { case 3
    then obtain v1 where a: "setHighlightAttributes E m v = Inr v1" and b: "resolve E ms v1 = Inr v'"
      by (auto split: sum.splits)
    from Cons.IH(3) [OF b] setHighlightAttributes_changes(3) [OF a] show ?case
      by (cases "requestID v' = requestID v1") auto }
qed

text \<open>
  Claim C3. The claim: resolving the three reserved keys never fails, a value under a
  reserved key that is not a string is treated as absent. The code asserts the type with
  \<^verbatim>\<open>p.(string)\<close>, which panics on such a value: for an attribute map whose project id is
  the integer 42, \<^verbatim>\<open>setHighlightAttributes\<close> panics, and so does the trace handler on a
  request whose single resource group carries that map.
\<close>

theorem C3_non_string_reserved_value_panics:
  "setHighlightAttributes E [ProjectIDAttribute E \<mapsto> AnyInt64 42] v = Inl InterfaceConversionPanic
   \<and> HandleTrace E ks1 ks2 ks3
       [\<lparr>rs_Attributes = [ProjectIDAttribute E \<mapsto> AnyInt64 42], rs_ScopeSpans = []\<rparr>]
     = Inl InterfaceConversionPanic"
  by (simp add: setHighlightAttributes_def assert_string_def HandleTrace_def classifyTrace_def
      resourceBody_def)

text \<open>
  Claim C7. For every sequence of attribute maps, split into the outer scopes and the
  deeper ones: an identifier that the deeper scopes leave different from what the outer
  scopes resolved is non-empty and is the string stored under the reserved key in one of
  the deeper maps. So an empty string under a reserved key, like a missing key, never
  overwrites the value resolved before.
\<close>

theorem C7_only_non_empty_string_overrides:
  assumes "resolve E (outer @ inner) v0 = Inr v'"
  shows "\<exists>v. resolve E outer v0 = Inr v
     \<and> (projectID v' \<noteq> projectID v \<longrightarrow>
          projectID v' \<noteq> '''' \<and>
          (\<exists>m\<in>set inner. m (ProjectIDAttribute E) = Some (AnyString (projectID v'))))
     \<and> (sessionID v' \<noteq> sessionID v \<longrightarrow>
          sessionID v' \<noteq> '''' \<and>
          (\<exists>m\<in>set inner. m (SessionIDAttribute E) = Some (AnyString (sessionID v'))))
     \<and> (requestID v' \<noteq> requestID v \<longrightarrow>
          requestID v' \<noteq> '''' \<and>
          (\<exists>m\<in>set inner. m (RequestIDAttribute E) = Some (AnyString (requestID v'))))
     \<and> ((\<forall>m\<in>set inner. m (ProjectIDAttribute E) \<in> {None, Some (AnyString '''')})
          \<longrightarrow> projectID v' = projectID v)
     \<and> ((\<forall>m\<in>set inner. m (SessionIDAttribute E) \<in> {None, Some (AnyString '''')})
          \<longrightarrow> sessionID v' = sessionID v)
     \<and> ((\<forall>m\<in>set inner. m (RequestIDAttribute E) \<in> {None, Some (AnyString '''')})
          \<longrightarrow> requestID v' = requestID v)"
proof -
  from assms obtain v where o: "resolve E outer v0 = Inr v" and i: "resolve E inner v = Inr v'"
    by (auto simp: resolve_append split: sum.splits)
  note c = resolve_changes [OF i]
  have "(\<forall>m\<in>set inner. m (ProjectIDAttribute E) \<in> {None, Some (AnyString '''')})
          \<longrightarrow> projectID v' = projectID v"
    using c(1) by fastforce
  moreover have "(\<forall>m\<in>set inner. m (SessionIDAttribute E) \<in> {None, Some (AnyString '''')})
          \<longrightarrow> sessionID v' = sessionID v"
    using c(2) by fastforce
  moreover have "(\<forall>m\<in>set inner. m (RequestIDAttribute E) \<in> {None, Some (AnyString '''')})
          \<longrightarrow> requestID v' = requestID v"
    using c(3) by fastforce
  ultimately show ?thesis using o c by blast
qed

theorem C7_witness:
  "resolve example_env
     ([[''highlight.session_id'' \<mapsto> AnyString ''S'']]
        @ [[''highlight.session_id'' \<mapsto> AnyString '''']]) zero_ids
     = Inr (zero_ids\<lparr>sessionID := ''S''\<rparr>)
   \<and> (\<exists>v. resolve example_env [[''highlight.session_id'' \<mapsto> AnyString ''S'']] zero_ids = Inr v
        \<and> sessionID (zero_ids\<lparr>sessionID := ''S''\<rparr>) = sessionID v)"
proof -
  have r: "resolve example_env
     ([[''highlight.session_id'' \<mapsto> AnyString ''S'']]
        @ [[''highlight.session_id'' \<mapsto> AnyString '''']]) zero_ids
     = Inr (zero_ids\<lparr>sessionID := ''S''\<rparr>)"
    by (simp add: setHighlightAttributes_def assert_string_def example_env_def zero_ids_def)
  from C7_only_non_empty_string_overrides [OF r] obtain v where
    "resolve example_env [[''highlight.session_id'' \<mapsto> AnyString ''S'']] zero_ids = Inr v"
    and "(\<forall>m\<in>set [[''highlight.session_id'' \<mapsto> AnyString '''']].
            m (SessionIDAttribute example_env) \<in> {None, Some (AnyString '''')})
          \<longrightarrow> sessionID (zero_ids\<lparr>sessionID := ''S''\<rparr>) = sessionID v"
    by blast
  then show ?thesis using r by (simp add: example_env_def)
qed

section \<open>Exception events\<close>

lemmas semconv_defs =
  ExceptionEventName_def ExceptionTypeKey_def ExceptionMessageKey_def
  ExceptionStacktraceKey_def TelemetrySDKLanguageKey_def ServiceNameKey_def

lemma exceptionInput_Inr_iff:
  "(\<exists>err. exceptionInput E i sdkLanguage serviceName scopeName span tagsBytes event = Inr err)
     \<longleftrightarrow>
   castString (ev_Attributes event ExceptionStacktraceKey) '''' \<noteq> '''' \<and>
   (castString (ev_Attributes event ExceptionTypeKey) '''' \<noteq> '''' \<or>
    castString (ev_Attributes event ExceptionMessageKey) '''' \<noteq> '''')"
  by (simp add: exceptionInput_def Let_def)

lemma exceptionInput_Inl:
  "exceptionInput E i sdkLanguage serviceName scopeName span tagsBytes event = Inl d \<Longrightarrow>
     d = WarnExceptionNoStacktrace \<or> d = WarnExceptionNoTypeNoMessage"
  by (auto simp: exceptionInput_def Let_def split: if_splits)

lemma eventBody_exception:
  assumes "ev_Name event = ExceptionEventName"
    and "setHighlightAttributes E (ev_Attributes event) (vars st i) = Inr v"
  shows "eventBody E i resourceAttributes sdkLanguage serviceName scopeName span tagsBytes event st
     = Inr (case exceptionInput E i sdkLanguage serviceName scopeName span tagsBytes event of
              Inl d \<Rightarrow> st\<lparr>vars := (vars st)(i := v), logged := logged st @ [d]\<rparr>
            | Inr err \<Rightarrow> routeError i err (st\<lparr>vars := (vars st)(i := v)\<rparr>))"
  using assms by (simp add: eventBody_def classifyEvent_def split: sum.splits)

text \<open>
  Claim C4. An exception event yields an error record exactly when its stack trace is
  non-empty and its type or its message is non-empty. When the event's attributes were
  applied to the identifier variables, a record that was built goes on to the routing
  step; otherwise the event body only writes one of the two warnings to the log, leaves
  the grouping maps as they were, and the event loop goes on with the events that follow.
\<close>

theorem C4_exception_event_record_iff:
  "((\<exists>err. exceptionInput E i sdkLanguage serviceName scopeName span tagsBytes event = Inr err)
      \<longleftrightarrow>
    castString (ev_Attributes event ExceptionStacktraceKey) '''' \<noteq> '''' \<and>
    (castString (ev_Attributes event ExceptionTypeKey) '''' \<noteq> '''' \<or>
     castString (ev_Attributes event ExceptionMessageKey) '''' \<noteq> ''''))
   \<and> (ev_Name event = ExceptionEventName \<longrightarrow>
        setHighlightAttributes E (ev_Attributes event) (vars st i) = Inr v \<longrightarrow>
        (case exceptionInput E i sdkLanguage serviceName scopeName span tagsBytes event of
           Inr err \<Rightarrow>
             eventBody E i resourceAttributes sdkLanguage serviceName scopeName span tagsBytes
               event st = Inr (routeError i err (st\<lparr>vars := (vars st)(i := v)\<rparr>))
         | Inl d \<Rightarrow>
             (d = WarnExceptionNoStacktrace \<or> d = WarnExceptionNoTypeNoMessage)
             \<and> eventBody E i resourceAttributes sdkLanguage serviceName scopeName span tagsBytes
                 event st
               = Inr (st\<lparr>vars := (vars st)(i := v), logged := logged st @ [d]\<rparr>)
             \<and> eventsLoop E i resourceAttributes sdkLanguage serviceName scopeName span tagsBytes
                 (event # events) st
               = eventsLoop E i resourceAttributes sdkLanguage serviceName scopeName span
                   tagsBytes events
                   (st\<lparr>vars := (vars st)(i := v), logged := logged st @ [d]\<rparr>)))"
proof (intro conjI impI)
  show "(\<exists>err. exceptionInput E i sdkLanguage serviceName scopeName span tagsBytes event = Inr err)
      \<longleftrightarrow>
    castString (ev_Attributes event ExceptionStacktraceKey) '''' \<noteq> '''' \<and>
    (castString (ev_Attributes event ExceptionTypeKey) '''' \<noteq> '''' \<or>
     castString (ev_Attributes event ExceptionMessageKey) '''' \<noteq> '''')"
    by (rule exceptionInput_Inr_iff)
next
  assume n: "ev_Name event = ExceptionEventName"
    and s: "setHighlightAttributes E (ev_Attributes event) (vars st i) = Inr v"
  note b = eventBody_exception [OF n s, of resourceAttributes sdkLanguage serviceName scopeName
      span tagsBytes]
  show "case exceptionInput E i sdkLanguage serviceName scopeName span tagsBytes event of
           Inr err \<Rightarrow>
             eventBody E i resourceAttributes sdkLanguage serviceName scopeName span tagsBytes
               event st = Inr (routeError i err (st\<lparr>vars := (vars st)(i := v)\<rparr>))
         | Inl d \<Rightarrow>
             (d = WarnExceptionNoStacktrace \<or> d = WarnExceptionNoTypeNoMessage)
             \<and> eventBody E i resourceAttributes sdkLanguage serviceName scopeName span tagsBytes
                 event st
               = Inr (st\<lparr>vars := (vars st)(i := v), logged := logged st @ [d]\<rparr>)
             \<and> eventsLoop E i resourceAttributes sdkLanguage serviceName scopeName span tagsBytes
                 (event # events) st
               = eventsLoop E i resourceAttributes sdkLanguage serviceName scopeName span
                   tagsBytes events
                   (st\<lparr>vars := (vars st)(i := v), logged := logged st @ [d]\<rparr>)"
  proof (cases "exceptionInput E i sdkLanguage serviceName scopeName span tagsBytes event")
    case (Inl d)
    with b exceptionInput_Inl [OF Inl] show ?thesis by simp
  next
    case (Inr err)
    with b show ?thesis by simp
  qed
qed

theorem C4_witness:
  "\<not> (\<exists>err. exceptionInput example_env 0 ''go'' ''svc'' ''s'' example_span ''{}''
              example_bare_exception = Inr err)
   \<and> eventBody example_env 0 Map.empty ''go'' ''svc'' ''s'' example_span ''{}''
       example_bare_exception init_state
     = Inr (init_state\<lparr>vars := (vars init_state)(0 := zero_ids),
                        logged := logged init_state @ [WarnExceptionNoStacktrace]\<rparr>)"
proof -
  have n: "ev_Name example_bare_exception = ExceptionEventName"
    by (simp add: example_bare_exception_def semconv_defs)
  have s: "setHighlightAttributes example_env (ev_Attributes example_bare_exception)
             (vars init_state 0) = Inr zero_ids"
    by (simp add: setHighlightAttributes_def example_bare_exception_def example_env_def
        init_state_def)
  have x: "exceptionInput example_env 0 ''go'' ''svc'' ''s'' example_span ''{}''
             example_bare_exception = Inl WarnExceptionNoStacktrace"
    by (simp add: exceptionInput_def example_bare_exception_def castString_def semconv_defs)
  from C4_exception_event_record_iff [where E = example_env and i = 0
      and sdkLanguage = "''go''" and serviceName = "''svc''" and scopeName = "''s''"
      and span = example_span and tagsBytes = "''{}''" and event = example_bare_exception
      and st = init_state and v = zero_ids and resourceAttributes = Map.empty and events = "[]"]
    n s x
  show ?thesis by simp
qed

text \<open>
  Claim C9. An exception event with a non-empty stack trace, an empty type and a
  non-empty message yields an error record whose type is the literal \<open>BACKEND\<close> and whose
  message is the event's; this is the record that the event body hands to the routing
  step.
\<close>

theorem C9_empty_type_defaults_to_BACKEND:
  assumes "castString (ev_Attributes event ExceptionStacktraceKey) '''' \<noteq> ''''"
    and "castString (ev_Attributes event ExceptionTypeKey) '''' = ''''"
    and "castString (ev_Attributes event ExceptionMessageKey) '''' \<noteq> ''''"
  shows "\<exists>err. exceptionInput E i sdkLanguage serviceName scopeName span tagsBytes event = Inr err
     \<and> Type err = ''BACKEND''
     \<and> Event err = castString (ev_Attributes event ExceptionMessageKey) ''''
     \<and> (ev_Name event = ExceptionEventName \<longrightarrow>
          setHighlightAttributes E (ev_Attributes event) (vars st i) = Inr v \<longrightarrow>
          eventBody E i resourceAttributes sdkLanguage serviceName scopeName span tagsBytes
            event st = Inr (routeError i err (st\<lparr>vars := (vars st)(i := v)\<rparr>)))"
proof -
  from assms obtain err where
    e: "exceptionInput E i sdkLanguage serviceName scopeName span tagsBytes event = Inr err"
    using exceptionInput_Inr_iff by blast
  have "Type err = ''BACKEND''"
    using e assms by (auto simp: exceptionInput_def Let_def castString_def split: if_splits)
  moreover have "Event err = castString (ev_Attributes event ExceptionMessageKey) ''''"
    using e assms by (auto simp: exceptionInput_def Let_def castString_def split: if_splits)
  moreover have "ev_Name event = ExceptionEventName \<longrightarrow>
          setHighlightAttributes E (ev_Attributes event) (vars st i) = Inr v \<longrightarrow>
          eventBody E i resourceAttributes sdkLanguage serviceName scopeName span tagsBytes
            event st = Inr (routeError i err (st\<lparr>vars := (vars st)(i := v)\<rparr>))"
    using e by (simp add: eventBody_exception)
  ultimately show ?thesis using e by blast
qed

theorem C9_witness:
  "\<exists>err. exceptionInput example_env 0 ''go'' ''svc'' ''s'' example_span ''{}''
            example_untyped_exception = Inr err
     \<and> Type err = ''BACKEND'' \<and> Event err = ''boom''"
proof -
  have a: "castString (ev_Attributes example_untyped_exception ExceptionStacktraceKey) '''' \<noteq> ''''"
    and b: "castString (ev_Attributes example_untyped_exception ExceptionTypeKey) '''' = ''''"
    and c: "castString (ev_Attributes example_untyped_exception ExceptionMessageKey) '''' \<noteq> ''''"
    and d: "castString (ev_Attributes example_untyped_exception ExceptionMessageKey) '''' = ''boom''"
    by (simp_all add: example_untyped_exception_def castString_def semconv_defs)
  from C9_empty_type_defaults_to_BACKEND [OF a b c, where E = example_env and i = 0
      and sdkLanguage = "''go''" and serviceName = "''svc''" and scopeName = "''s''"
      and span = example_span and tagsBytes = "''{}''" and st = init_state and v = zero_ids
      and resourceAttributes = Map.empty]
  obtain err where
    "exceptionInput example_env 0 ''go'' ''svc'' ''s'' example_span ''{}''
       example_untyped_exception = Inr err"
    and "Type err = ''BACKEND''"
    and "Event err = castString (ev_Attributes example_untyped_exception ExceptionMessageKey) ''''"
    by blast
  with d show ?thesis by auto
qed

section \<open>Project ids and log rows\<close>

lemma ParseInt_10_32_range:
  assumes "ParseInt_10_32 s = (n, None)"
  shows "- (2 ^ 31) \<le> n \<and> n < 2 ^ 31"
  using assms
  by (auto simp: ParseInt_10_32_def Let_def split: if_splits prod.splits)

lemma projectToInt_ParseInt:
  "ParseInt_10_32 s = (n, None) \<Longrightarrow> projectToInt E s = Inr n"
  by (simp add: projectToInt_def)

lemma spanLogRow_Inr_iff:
  "(\<exists>row. spanLogRow E v resourceAttributes serviceName span event = Inr row) \<longleftrightarrow>
     castString (ev_Attributes event (LogMessageKey E)) '''' \<noteq> '''' \<and>
     (\<exists>n. projectToInt E (projectID v) = Inr n)"
  by (auto simp: spanLogRow_def Let_def split: sum.splits)

lemma spanLogRow_Inr:
  assumes "castString (ev_Attributes event (LogMessageKey E)) '''' \<noteq> ''''"
    and "projectToInt E (projectID v) = Inr n"
  shows "spanLogRow E v resourceAttributes serviceName span event =
     Inr \<lparr>RowTimestamp = ev_Timestamp event,
          TraceId = sp_TraceID span,
          SpanId = sp_SpanID span,
          SeverityText = castString (ev_Attributes event (LogSeverityKey E)) ''unknown'',
          SeverityNumber =
            fst (ParseLevel E (castString (ev_Attributes event (LogSeverityKey E)) ''unknown'')),
          ServiceName = serviceName,
          Body = castString (ev_Attributes event (LogMessageKey E)) '''',
          ResourceAttributes = stringEntries resourceAttributes,
          LogAttributes =
            (\<lambda>k. case ev_Attributes event k of
                    None \<Rightarrow> None
                  | Some x \<Rightarrow>
                      (let vStr = castString (Some x) ''''
                       in if vStr = '''' \<or> k = LogMessageKey E \<or> k = LogSeverityKey E
                          then None
                          else Some (castString (Some x) ''''))),
          ProjectId = word_of_int n,
          SecureSessionId = sessionID v\<rparr>"
  using assms by (simp add: spanLogRow_def Let_def)

lemma logRecordRow_Inr:
  assumes "projectToInt E (projectID v) = Inr n"
  shows "logRecordRow E v resourceAttributes serviceName logRecord =
     Inr \<lparr>RowTimestamp = lr_Timestamp logRecord,
          TraceId = lr_TraceID logRecord,
          SpanId = lr_SpanID logRecord,
          SeverityText = lr_SeverityText logRecord,
          SeverityNumber = lr_SeverityNumber logRecord,
          ServiceName = serviceName,
          Body = Value_Str (lr_Body logRecord),
          ResourceAttributes = stringEntries resourceAttributes,
          LogAttributes = stringEntries (lr_Attributes logRecord),
          ProjectId = word_of_int n,
          SecureSessionId = sessionID v\<rparr>"
  using assms by (simp add: logRecordRow_def Let_def)

lemma castString_Some_empty:
  "castString (Some x) '''' \<noteq> '''' \<Longrightarrow> x = AnyString (castString (Some x) '''')"
  by (cases x) (auto simp: castString_def)

lemma stringEntries_Some:
  "stringEntries a k = Some s \<Longrightarrow> s \<noteq> '''' \<and> a k = Some (AnyString s)"
  by (auto simp: stringEntries_def Let_def split: option.splits if_splits
      intro: castString_Some_empty)

text \<open>
  Claim C10. A string that \<^verbatim>\<open>strconv.ParseInt(s, 10, 32)\<close> accepts, negative ones
  included, normalizes without error to the parsed value, which lies in the signed 32-bit
  range; both classifiers store it in the unsigned 32-bit project id of the log row
  reduced modulo \<open>2^32\<close>.
\<close>

theorem C10_negative_project_id_wraps:
  assumes "ParseInt_10_32 s = (n, None)"
  shows "projectToInt E s = Inr n \<and> - (2 ^ 31) \<le> n \<and> n < 2 ^ 31
     \<and> (projectID v = s \<longrightarrow>
          castString (ev_Attributes event (LogMessageKey E)) '''' \<noteq> '''' \<longrightarrow>
          (\<exists>row. spanLogRow E v resourceAttributes serviceName span event = Inr row
             \<and> ProjectId row = word_of_int n \<and> uint (ProjectId row) = n mod 2 ^ 32))
     \<and> (projectID v = s \<longrightarrow>
          (\<exists>row. logRecordRow E v resourceAttributes serviceName logRecord = Inr row
             \<and> ProjectId row = word_of_int n \<and> uint (ProjectId row) = n mod 2 ^ 32))"
proof -
  have p: "projectToInt E s = Inr n"
    using assms by (rule projectToInt_ParseInt)
  have u: "uint (word_of_int n :: 32 word) = n mod 2 ^ 32"
    by (simp add: uint_word_of_int)
  show ?thesis
    using p ParseInt_10_32_range [OF assms] u
    by (auto simp: spanLogRow_Inr logRecordRow_Inr)
qed

theorem C10_witness:
  "ParseInt_10_32 ''-1'' = (- 1, None)
   \<and> projectToInt example_env ''-1'' = Inr (- 1)
   \<and> (\<exists>row. logRecordRow example_env (zero_ids\<lparr>projectID := ''-1''\<rparr>) Map.empty ''svc''
               example_log_record = Inr row
        \<and> uint (ProjectId row) = 4294967295)"
proof -
  have a: "ParseInt_10_32 ''-1'' = (- 1, None)"
    by (simp add: ParseInt_10_32_def ParseUint_10_32_def)
  have b: "projectID (zero_ids\<lparr>projectID := ''-1''\<rparr>) = ''-1''"
    by simp
  from C10_negative_project_id_wraps [OF a, where E = example_env
      and v = "zero_ids\<lparr>projectID := ''-1''\<rparr>" and resourceAttributes = Map.empty
      and serviceName = "''svc''" and logRecord = example_log_record] a b
  show ?thesis by auto
qed

lemma logrus_ParseLevel_error:
  "snd (logrus_ParseLevel t) \<noteq> None \<Longrightarrow> fst (logrus_ParseLevel t) = 0"
  by (auto simp: logrus_ParseLevel_def Let_def split: if_splits)

lemma logrus_ParseLevel_panic:
  "strings_ToLower t = ''panic'' \<Longrightarrow> logrus_ParseLevel t = (0, None)"
  by (simp add: logrus_ParseLevel_def)

lemma logrus_ParseLevel_unknown:
  "logrus_ParseLevel ''unknown'' = (0, Some ''not a valid logrus Level: unknown'')"
  by (simp add: logrus_ParseLevel_def toLowerByte_def Let_def char_of_eq_iff)

text \<open>
  Claim C8, as the code has it, with the level parser of logrus. In the log branch of the
  trace classifier no severity makes the record fail: whenever the message is non-empty
  and the project id normalizes, a log row is built. Its severity text is the event's
  severity, or \<open>unknown\<close> when the attribute is missing (or empty, or no string). Its
  severity number is the level of that text, and for every text that the parser rejects,
  the default \<open>unknown\<close> included, it is the one number 0: the zero value that the parser
  returns with the error that the handler ignores. This is no level of its own: 0 is
  also the number of the level \<open>panic\<close>.
\<close>

theorem C8_unparsed_severity_is_level_zero:
  assumes "ParseLevel E = logrus_ParseLevel"
    and "castString (ev_Attributes event (LogMessageKey E)) '''' \<noteq> ''''"
    and "projectToInt E (projectID v) = Inr n"
  shows "\<exists>row. spanLogRow E v resourceAttributes serviceName span event = Inr row
     \<and> SeverityText row = castString (ev_Attributes event (LogSeverityKey E)) ''unknown''
     \<and> (ev_Attributes event (LogSeverityKey E) = None \<longrightarrow>
          SeverityText row = ''unknown'' \<and> SeverityNumber row = 0)
     \<and> SeverityNumber row = fst (logrus_ParseLevel (SeverityText row))
     \<and> (snd (logrus_ParseLevel (SeverityText row)) \<noteq> None \<longrightarrow> SeverityNumber row = 0)
     \<and> (strings_ToLower (SeverityText row) = ''panic'' \<longrightarrow> SeverityNumber row = 0)"
proof -
  let ?sev = "castString (ev_Attributes event (LogSeverityKey E)) ''unknown''"
  from spanLogRow_Inr [OF assms(2,3), of resourceAttributes serviceName span] assms(1)
  obtain row where
    r: "spanLogRow E v resourceAttributes serviceName span event = Inr row"
    and t: "SeverityText row = ?sev"
    and n: "SeverityNumber row = fst (logrus_ParseLevel (SeverityText row))"
    by simp
  have c3: "ev_Attributes event (LogSeverityKey E) = None \<longrightarrow>
          SeverityText row = ''unknown'' \<and> SeverityNumber row = 0"
  proof
    assume "ev_Attributes event (LogSeverityKey E) = None"
    with t have "SeverityText row = ''unknown''"
      by (simp add: castString_def)
    with n show "SeverityText row = ''unknown'' \<and> SeverityNumber row = 0"
      by (simp add: logrus_ParseLevel_unknown)
  qed
  have c5: "snd (logrus_ParseLevel (SeverityText row)) \<noteq> None \<longrightarrow> SeverityNumber row = 0"
    using n logrus_ParseLevel_error by simp
  have c6: "strings_ToLower (SeverityText row) = ''panic'' \<longrightarrow> SeverityNumber row = 0"
    using n logrus_ParseLevel_panic by simp
  show ?thesis
    by (intro exI [of _ row] conjI) (rule r t n c3 c5 c6)+
qed

theorem C8_witness:
  "\<exists>row. spanLogRow example_env (zero_ids\<lparr>projectID := ''1''\<rparr>) Map.empty ''svc'' example_span
            example_log_event = Inr row
     \<and> SeverityText row = ''loud'' \<and> SeverityNumber row = 0"
proof -
  have p: "ParseLevel example_env = logrus_ParseLevel"
    by (simp add: example_env_def)
  have a: "castString (ev_Attributes example_log_event (LogMessageKey example_env)) '''' \<noteq> ''''"
    by (simp add: example_log_event_def example_env_def castString_def)
  have b: "projectToInt example_env (projectID (zero_ids\<lparr>projectID := ''1''\<rparr>)) = Inr 1"
    by (simp add: projectToInt_def ParseInt_10_32_def ParseUint_10_32_def)
  have c: "castString (ev_Attributes example_log_event (LogSeverityKey example_env)) ''unknown''
             = ''loud''"
    by (simp add: example_log_event_def example_env_def castString_def)
  have e: "snd (logrus_ParseLevel ''loud'') \<noteq> None"
    by (simp add: logrus_ParseLevel_def toLowerByte_def Let_def char_of_eq_iff)
  from C8_unparsed_severity_is_level_zero [OF p a b, where resourceAttributes = Map.empty
      and serviceName = "''svc''" and span = example_span]
  obtain row where
    "spanLogRow example_env (zero_ids\<lparr>projectID := ''1''\<rparr>) Map.empty ''svc'' example_span
       example_log_event = Inr row"
    and "SeverityText row = castString (ev_Attributes example_log_event (LogSeverityKey example_env)) ''unknown''"
    and "snd (logrus_ParseLevel (SeverityText row)) \<noteq> None \<longrightarrow> SeverityNumber row = 0"
    by blast
  with c e show ?thesis by auto
qed

text \<open>
  Claim C8 as the spec states it fails: the number given to a severity that does not
  parse designates no unknown level. The severity \<open>loud\<close> is rejected by the parser, the
  severity \<open>panic\<close> is the name of a level and is accepted, and the rows of the two example
  log events carry the same severity number, 0.
\<close>

theorem C8_counterexample:
  "snd (logrus_ParseLevel ''loud'') \<noteq> None
   \<and> snd (logrus_ParseLevel ''panic'') = None
   \<and> \<not> isl (spanLogRow example_env (zero_ids\<lparr>projectID := ''1''\<rparr>) Map.empty ''svc''
              example_span example_log_event)
   \<and> \<not> isl (spanLogRow example_env (zero_ids\<lparr>projectID := ''1''\<rparr>) Map.empty ''svc''
              example_span example_panic_log_event)
   \<and> SeverityText (projr (spanLogRow example_env (zero_ids\<lparr>projectID := ''1''\<rparr>) Map.empty
        ''svc'' example_span example_log_event)) = ''loud''
   \<and> SeverityNumber (projr (spanLogRow example_env (zero_ids\<lparr>projectID := ''1''\<rparr>) Map.empty
        ''svc'' example_span example_log_event)) = 0
   \<and> SeverityText (projr (spanLogRow example_env (zero_ids\<lparr>projectID := ''1''\<rparr>) Map.empty
        ''svc'' example_span example_panic_log_event)) = ''panic''
   \<and> SeverityNumber (projr (spanLogRow example_env (zero_ids\<lparr>projectID := ''1''\<rparr>) Map.empty
        ''svc'' example_span example_panic_log_event)) = 0"
  by (simp add: spanLogRow_def projectToInt_def ParseInt_10_32_def ParseUint_10_32_def
      castString_def logrus_ParseLevel_def toLowerByte_def char_of_eq_iff Let_def
      example_env_def example_log_event_def example_panic_log_event_def)

lemma eventBody_log:
  assumes "ev_Name event \<noteq> ExceptionEventName" and "ev_Name event = LogName E"
    and "setHighlightAttributes E (ev_Attributes event) (vars st i) = Inr v"
  shows "eventBody E i resourceAttributes sdkLanguage serviceName scopeName span tagsBytes event st
     = Inr (case spanLogRow E v resourceAttributes serviceName span event of
              Inl d \<Rightarrow> st\<lparr>vars := (vars st)(i := v), logged := logged st @ [d]\<rparr>
            | Inr logRow \<Rightarrow>
                routeLog i ErrorSpanLogNoProject logRow (st\<lparr>vars := (vars st)(i := v)\<rparr>))"
  using assms by (simp add: eventBody_def classifyEvent_def split: sum.splits)

lemma logRecordBody_eq:
  assumes "setHighlightAttributes E (lr_Attributes logRecord) (vars st i) = Inr v"
  shows "logRecordBody E i resourceAttributes serviceName logRecord st
     = Inr (case logRecordRow E v resourceAttributes serviceName logRecord of
              Inl d \<Rightarrow> st\<lparr>vars := (vars st)(i := v), logged := logged st @ [d]\<rparr>
            | Inr logRow \<Rightarrow>
                routeLog i ErrorLogNoProject logRow (st\<lparr>vars := (vars st)(i := v)\<rparr>))"
  using assms by (simp add: logRecordBody_def Let_def split: sum.splits)

lemma spanLogRow_fields:
  assumes "spanLogRow E v resourceAttributes serviceName span event = Inr row"
  shows "Body row = castString (ev_Attributes event (LogMessageKey E)) ''''"
    and "Body row \<noteq> ''''"
    and "\<exists>n. projectToInt E (projectID v) = Inr n \<and> ProjectId row = word_of_int n"
    and "LogAttributes row k = Some s \<Longrightarrow>
           s \<noteq> '''' \<and> k \<noteq> LogSeverityKey E \<and> k \<noteq> LogMessageKey E
             \<and> ev_Attributes event k = Some (AnyString s)"
proof -
  from assms have m: "castString (ev_Attributes event (LogMessageKey E)) '''' \<noteq> ''''"
    and "\<exists>n. projectToInt E (projectID v) = Inr n"
    using spanLogRow_Inr_iff [of E v resourceAttributes serviceName span event] by auto
  then obtain n where n: "projectToInt E (projectID v) = Inr n" by blast
  note r = spanLogRow_Inr [OF m n, of resourceAttributes serviceName span]
  from r assms show "Body row = castString (ev_Attributes event (LogMessageKey E)) ''''"
    by auto
  with m show "Body row \<noteq> ''''" by simp
  from r assms n show "\<exists>n. projectToInt E (projectID v) = Inr n \<and> ProjectId row = word_of_int n"
    by auto
  assume "LogAttributes row k = Some s"
  with r assms show "s \<noteq> '''' \<and> k \<noteq> LogSeverityKey E \<and> k \<noteq> LogMessageKey E
             \<and> ev_Attributes event k = Some (AnyString s)"
    by (auto simp: Let_def split: option.splits if_splits intro: castString_Some_empty)
qed

lemma logRecordRow_fields:
  assumes "logRecordRow E v resourceAttributes serviceName logRecord = Inr row"
  shows "\<exists>n. projectToInt E (projectID v) = Inr n \<and> ProjectId row = word_of_int n"
    and "LogAttributes row k = Some s \<Longrightarrow>
           s \<noteq> '''' \<and> lr_Attributes logRecord k = Some (AnyString s)"
proof -
  from assms obtain n where n: "projectToInt E (projectID v) = Inr n"
    by (auto simp: logRecordRow_def Let_def split: sum.splits)
  note r = logRecordRow_Inr [OF n, of resourceAttributes serviceName logRecord]
  from r assms n show "\<exists>n. projectToInt E (projectID v) = Inr n \<and> ProjectId row = word_of_int n"
    by auto
  assume "LogAttributes row k = Some s"
  with r assms show "s \<noteq> '''' \<and> lr_Attributes logRecord k = Some (AnyString s)"
    by (auto dest: stringEntries_Some)
qed

text \<open>
  Claim C2, as the code has it. In the trace classifier a log row is built exactly when
  the message is non-empty and the project id normalizes; its body is that message, its
  project id the normalized one, and its log attributes are non-empty strings of the event
  under keys other than the two reserved ones. In the log classifier a log row is built
  only when the project id normalizes, and its log attributes are non-empty strings of
  the record. In both, a record for which no row is built is dropped: the body of the
  loop only writes the diagnostic to the log, and the loop goes on with what follows.
\<close>

theorem C2_log_row_conditions:
  "((\<exists>row. spanLogRow E v resourceAttributes serviceName span event = Inr row) \<longleftrightarrow>
      castString (ev_Attributes event (LogMessageKey E)) '''' \<noteq> '''' \<and>
      (\<exists>n. projectToInt E (projectID v) = Inr n))
   \<and> (spanLogRow E v resourceAttributes serviceName span event = Inr row \<longrightarrow>
        Body row = castString (ev_Attributes event (LogMessageKey E)) '''' \<and> Body row \<noteq> ''''
        \<and> (\<exists>n. projectToInt E (projectID v) = Inr n \<and> ProjectId row = word_of_int n)
        \<and> (\<forall>k s. LogAttributes row k = Some s \<longrightarrow>
              s \<noteq> '''' \<and> k \<noteq> LogSeverityKey E \<and> k \<noteq> LogMessageKey E
                \<and> ev_Attributes event k = Some (AnyString s)))
   \<and> (logRecordRow E v resourceAttributes serviceName logRecord = Inr row' \<longrightarrow>
        (\<exists>n. projectToInt E (projectID v) = Inr n \<and> ProjectId row' = word_of_int n)
        \<and> (\<forall>k s. LogAttributes row' k = Some s \<longrightarrow>
              s \<noteq> '''' \<and> lr_Attributes logRecord k = Some (AnyString s)))
   \<and> (spanLogRow E v resourceAttributes serviceName span event = Inl d \<longrightarrow>
        ev_Name event \<noteq> ExceptionEventName \<longrightarrow> ev_Name event = LogName E \<longrightarrow>
        setHighlightAttributes E (ev_Attributes event) (vars st i) = Inr v \<longrightarrow>
          eventBody E i resourceAttributes sdkLanguage serviceName scopeName span tagsBytes
            event st
          = Inr (st\<lparr>vars := (vars st)(i := v), logged := logged st @ [d]\<rparr>)
          \<and> eventsLoop E i resourceAttributes sdkLanguage serviceName scopeName span tagsBytes
              (event # events) st
            = eventsLoop E i resourceAttributes sdkLanguage serviceName scopeName span
                tagsBytes events (st\<lparr>vars := (vars st)(i := v), logged := logged st @ [d]\<rparr>))
   \<and> (logRecordRow E v resourceAttributes serviceName logRecord = Inl d' \<longrightarrow>
        setHighlightAttributes E (lr_Attributes logRecord) (vars st i) = Inr v \<longrightarrow>
          logRecordBody E i resourceAttributes serviceName logRecord st
          = Inr (st\<lparr>vars := (vars st)(i := v), logged := logged st @ [d']\<rparr>)
          \<and> logRecordsLoop E i resourceAttributes serviceName (logRecord # logRecords) st
            = logRecordsLoop E i resourceAttributes serviceName logRecords
                (st\<lparr>vars := (vars st)(i := v), logged := logged st @ [d']\<rparr>))"
proof (intro conjI impI allI)
  show "(\<exists>row. spanLogRow E v resourceAttributes serviceName span event = Inr row) \<longleftrightarrow>
      castString (ev_Attributes event (LogMessageKey E)) '''' \<noteq> '''' \<and>
      (\<exists>n. projectToInt E (projectID v) = Inr n)"
    by (rule spanLogRow_Inr_iff)
next
  assume a: "spanLogRow E v resourceAttributes serviceName span event = Inr row"
  show "Body row = castString (ev_Attributes event (LogMessageKey E)) ''''"
    by (rule spanLogRow_fields(1) [OF a])
  show "Body row \<noteq> ''''"
    by (rule spanLogRow_fields(2) [OF a])
  show "\<exists>n. projectToInt E (projectID v) = Inr n \<and> ProjectId row = word_of_int n"
    by (rule spanLogRow_fields(3) [OF a])
  fix k s assume "LogAttributes row k = Some s"
  from spanLogRow_fields(4) [OF a this]
  show "s \<noteq> ''''" and "k \<noteq> LogSeverityKey E" and "k \<noteq> LogMessageKey E"
    and "ev_Attributes event k = Some (AnyString s)"
    by simp_all
next
  assume a: "logRecordRow E v resourceAttributes serviceName logRecord = Inr row'"
  show "\<exists>n. projectToInt E (projectID v) = Inr n \<and> ProjectId row' = word_of_int n"
    by (rule logRecordRow_fields(1) [OF a])
  fix k s assume "LogAttributes row' k = Some s"
  from logRecordRow_fields(2) [OF a this]
  show "s \<noteq> ''''" and "lr_Attributes logRecord k = Some (AnyString s)"
    by simp_all
next
  assume d: "spanLogRow E v resourceAttributes serviceName span event = Inl d"
    and n: "ev_Name event \<noteq> ExceptionEventName" "ev_Name event = LogName E"
    and s: "setHighlightAttributes E (ev_Attributes event) (vars st i) = Inr v"
  from eventBody_log [OF n s, of resourceAttributes sdkLanguage serviceName scopeName span
      tagsBytes] d
  show b: "eventBody E i resourceAttributes sdkLanguage serviceName scopeName span tagsBytes
            event st
          = Inr (st\<lparr>vars := (vars st)(i := v), logged := logged st @ [d]\<rparr>)"
    by simp
  then show "eventsLoop E i resourceAttributes sdkLanguage serviceName scopeName span tagsBytes
              (event # events) st
            = eventsLoop E i resourceAttributes sdkLanguage serviceName scopeName span
                tagsBytes events (st\<lparr>vars := (vars st)(i := v), logged := logged st @ [d]\<rparr>)"
    by simp
next
  assume d: "logRecordRow E v resourceAttributes serviceName logRecord = Inl d'"
    and s: "setHighlightAttributes E (lr_Attributes logRecord) (vars st i) = Inr v"
  from logRecordBody_eq [OF s, of resourceAttributes serviceName] d
  show b: "logRecordBody E i resourceAttributes serviceName logRecord st
          = Inr (st\<lparr>vars := (vars st)(i := v), logged := logged st @ [d']\<rparr>)"
    by simp
  then show "logRecordsLoop E i resourceAttributes serviceName (logRecord # logRecords) st
            = logRecordsLoop E i resourceAttributes serviceName logRecords
                (st\<lparr>vars := (vars st)(i := v), logged := logged st @ [d']\<rparr>)"
    by simp
qed

theorem C2_witness:
  "\<exists>row. spanLogRow example_env (zero_ids\<lparr>projectID := ''1''\<rparr>) Map.empty ''svc'' example_span
            example_log_event = Inr row
     \<and> Body row = ''m'' \<and> LogAttributes row ''log.message'' = None"
proof -
  have a: "castString (ev_Attributes example_log_event (LogMessageKey example_env)) '''' = ''m''"
    by (simp add: example_log_event_def example_env_def castString_def)
  have b: "projectToInt example_env (projectID (zero_ids\<lparr>projectID := ''1''\<rparr>)) = Inr 1"
    by (simp add: projectToInt_def ParseInt_10_32_def ParseUint_10_32_def)
  have k: "LogMessageKey example_env = ''log.message''"
    by (simp add: example_env_def)
  note t = C2_log_row_conditions [where E = example_env and v = "zero_ids\<lparr>projectID := ''1''\<rparr>"
      and resourceAttributes = Map.empty and serviceName = "''svc''" and span = example_span
      and event = example_log_event]
  from t [THEN conjunct1] a b obtain row where
    r: "spanLogRow example_env (zero_ids\<lparr>projectID := ''1''\<rparr>) Map.empty ''svc'' example_span
          example_log_event = Inr row"
    by auto
  from t [THEN conjunct2, THEN conjunct1, rule_format, OF r] a
  have b1: "Body row = ''m''"
    and b2: "\<forall>k s. LogAttributes row k = Some s \<longrightarrow> k \<noteq> LogMessageKey example_env"
    by auto
  have "LogAttributes row ''log.message'' = None"
  proof (cases "LogAttributes row ''log.message''")
    case None
    then show ?thesis .
  next
    case (Some s)
    with b2 k show ?thesis by auto
  qed
  with r b1 show ?thesis by auto
qed

text \<open>
  Claim C2 as the spec states it fails for the log classifier: the record of the example
  log request has an empty body and carries the reserved message key among its
  attributes, and the log classifier files a row for it under project \<open>1\<close>, with the
  empty body and with the reserved key among the row's log attributes.
\<close>

theorem C2_counterexample:
  "\<not> isl (classifyLog example_env example_log_request)
   \<and> length (bucket (projectLogs (projr (classifyLog example_env example_log_request))) ''1'') = 1
   \<and> Body (hd (bucket (projectLogs (projr (classifyLog example_env example_log_request))) ''1''))
       = ''''
   \<and> LogAttributes
       (hd (bucket (projectLogs (projr (classifyLog example_env example_log_request))) ''1''))
       (LogMessageKey example_env) = Some ''m''"
  by (simp add: classifyLog_def resourceLogsBody_def logRecordBody_def logRecordRow_def
      routeLog_def appendTo_def bucket_def stringEntries_def Value_Str_def castString_def
      setHighlightAttributes_def assert_string_def projectToInt_def ParseInt_10_32_def
      ParseUint_10_32_def init_state_def zero_ids_def example_env_def example_log_request_def
      example_log_record_def semconv_defs Let_def)

section \<open>Routing\<close>

lemma submitLoop_append:
  "submitLoop E (xs @ ys) made =
     (case submitLoop E xs made of
        (Some err, made1) \<Rightarrow> (Some err, made1)
      | (None, made1) \<Rightarrow> submitLoop E ys made1)"
  by (induction xs arbitrary: made) (simp_all split: option.splits)

lemma submitLoop_all_accepted:
  assumes "\<forall>m<length cs. Submit E (made @ take m cs) (cs ! m) = None"
  shows "submitLoop E cs made = (None, made @ cs)"
  using assms
proof (induction cs arbitrary: made)
  case Nil
  then show ?case by simp
next
  case (Cons c cs)
  from Cons.prems have h: "Submit E made c = None"
    by force
  have "\<forall>m<length cs. Submit E ((made @ [c]) @ take m cs) (cs ! m) = None"
  proof (intro allI impI)
    fix m assume "m < length cs"
    then have "Suc m < length (c # cs)" by simp
    with Cons.prems have "Submit E (made @ take (Suc m) (c # cs)) ((c # cs) ! Suc m) = None"
      by blast
    then show "Submit E ((made @ [c]) @ take m cs) (cs ! m) = None" by simp
  qed
  from Cons.IH [OF this] h show ?case by simp
qed

lemma submitLoop_first_rejected:
  assumes "n < length cs"
    and "Submit E (made @ take n cs) (cs ! n) = Some err"
    and "\<forall>m<n. Submit E (made @ take m cs) (cs ! m) = None"
  shows "submitLoop E cs made = (Some err, made @ take (Suc n) cs)"
  using assms
proof (induction cs arbitrary: made n)
  case Nil
  then show ?case by simp
next
  case (Cons c cs)
  show ?case
  proof (cases n)
    case 0
    with Cons.prems show ?thesis by simp
  next
    case (Suc k)
    with Cons.prems have h: "Submit E made c = None"
      by force
    have k: "k < length cs"
      using Cons.prems(1) Suc by simp
    have f: "Submit E ((made @ [c]) @ take k cs) (cs ! k) = Some err"
      using Cons.prems(2) Suc by simp
    have "\<forall>m<k. Submit E ((made @ [c]) @ take m cs) (cs ! m) = None"
    proof (intro allI impI)
      fix m assume "m < k"
      then have "Suc m < n" using Suc by simp
      with Cons.prems(3) have "Submit E (made @ take (Suc m) (c # cs)) ((c # cs) ! Suc m) = None"
        by blast
      then show "Submit E ((made @ [c]) @ take m cs) (cs ! m) = None" by simp
    qed
    from Cons.IH [OF k f this] h Suc show ?thesis by simp
  qed
qed

lemma submitLoop_firstFailure:
  assumes "firstFailure E cs n"
  shows "\<exists>err. submitLoop E cs [] = (Some err, take (Suc n) cs)"
proof -
  from assms obtain err where "n < length cs" and "Submit E ([] @ take n cs) (cs ! n) = Some err"
    and "\<forall>m<n. Submit E ([] @ take m cs) (cs ! m) = None"
    by (auto simp: firstFailure_def)
  from submitLoop_first_rejected [OF this] show ?thesis by simp
qed

lemma submitLoop_noFailure:
  assumes "noFailure E cs"
  shows "submitLoop E cs [] = (None, cs)"
proof -
  from assms have "\<forall>m<length cs. Submit E ([] @ take m cs) (cs ! m) = None"
    by (simp add: noFailure_def)
  from submitLoop_all_accepted [OF this] show ?thesis by simp
qed

lemma HandleTrace_submitLoop:
  assumes "classifyTrace E req = Inr st"
  shows "\<exists>r. HandleTrace E ks1 ks2 ks3 req = Inr r
     \<and> status r = (case fst (submitLoop E (traceCalls st ks1 ks2 ks3) []) of
                     None \<Rightarrow> StatusOK | Some err \<Rightarrow> StatusServiceUnavailable)
     \<and> submitted r = snd (submitLoop E (traceCalls st ks1 ks2 ks3) [])"
  using assms
  by (auto simp: HandleTrace_def traceCalls_def submitLoop_append
      split: prod.splits option.splits)

lemma HandleLog_submitLoop:
  assumes "classifyLog E req = Inr st"
  shows "\<exists>r. HandleLog E ks req = Inr r
     \<and> status r = (case fst (submitLoop E (projectLogCalls st ks) []) of
                     None \<Rightarrow> StatusOK | Some err \<Rightarrow> StatusServiceUnavailable)
     \<and> submitted r = snd (submitLoop E (projectLogCalls st ks) [])"
  using assms
  by (auto simp: HandleLog_def split: prod.splits option.splits)

lemma distinct_projectLogCalls: "distinct ks \<Longrightarrow> distinct (projectLogCalls st ks)"
  by (simp add: projectLogCalls_def distinct_map inj_on_def)

lemma distinct_traceCalls:
  assumes "distinct ks1" and "distinct ks2" and "distinct ks3"
  shows "distinct (traceCalls st ks1 ks2 ks3)"
  using assms
  by (auto simp: traceCalls_def sessionErrorCalls_def projectErrorCalls_def projectLogCalls_def
      distinct_map inj_on_def)

text \<open>
  Claim C6. Let the calls of a handler be those that its submission loops make, in their
  order, when no call fails. If the call at position \<open>n\<close> is the first that the queue
  rejects, the handler answers 503 and the calls it made are exactly the first \<open>n + 1\<close>:
  the \<open>n\<close> accepted ones, which are neither repeated nor withdrawn, then the rejected
  one, and none after it. If no call is rejected, the handler answers 200 and made all
  the calls. No call is made twice, since a loop visits every key of its map once. This holds
  for the trace handler and for the log handler.
\<close>

theorem C6_first_failure_stops_routing:
  "(classifyTrace E req = Inr st \<longrightarrow>
      (firstFailure E (traceCalls st ks1 ks2 ks3) n \<longrightarrow>
         (\<exists>r. HandleTrace E ks1 ks2 ks3 req = Inr r
            \<and> status r = StatusServiceUnavailable
            \<and> submitted r = take (Suc n) (traceCalls st ks1 ks2 ks3)))
      \<and> (noFailure E (traceCalls st ks1 ks2 ks3) \<longrightarrow>
         (\<exists>r. HandleTrace E ks1 ks2 ks3 req = Inr r
            \<and> status r = StatusOK
            \<and> submitted r = traceCalls st ks1 ks2 ks3))
      \<and> (rangeOrder (traceErrors st) ks1 \<and> rangeOrder (projectErrors st) ks2
            \<and> rangeOrder (projectLogs st) ks3 \<longrightarrow>
           distinct (traceCalls st ks1 ks2 ks3)))
   \<and> (classifyLog E lreq = Inr lst \<longrightarrow>
      (firstFailure E (projectLogCalls lst ks) n' \<longrightarrow>
         (\<exists>r. HandleLog E ks lreq = Inr r
            \<and> status r = StatusServiceUnavailable
            \<and> submitted r = take (Suc n') (projectLogCalls lst ks)))
      \<and> (noFailure E (projectLogCalls lst ks) \<longrightarrow>
         (\<exists>r. HandleLog E ks lreq = Inr r
            \<and> status r = StatusOK
            \<and> submitted r = projectLogCalls lst ks))
      \<and> (rangeOrder (projectLogs lst) ks \<longrightarrow> distinct (projectLogCalls lst ks)))"
proof (intro conjI impI)
  assume c: "classifyTrace E req = Inr st"
  note h = HandleTrace_submitLoop [OF c, of ks1 ks2 ks3]
  { assume "firstFailure E (traceCalls st ks1 ks2 ks3) n"
    from submitLoop_firstFailure [OF this] h
    show "\<exists>r. HandleTrace E ks1 ks2 ks3 req = Inr r
            \<and> status r = StatusServiceUnavailable
            \<and> submitted r = take (Suc n) (traceCalls st ks1 ks2 ks3)"
      by auto }
  { assume "noFailure E (traceCalls st ks1 ks2 ks3)"
    from submitLoop_noFailure [OF this] h
    show "\<exists>r. HandleTrace E ks1 ks2 ks3 req = Inr r
            \<and> status r = StatusOK
            \<and> submitted r = traceCalls st ks1 ks2 ks3"
      by auto }
  { assume "rangeOrder (traceErrors st) ks1 \<and> rangeOrder (projectErrors st) ks2
            \<and> rangeOrder (projectLogs st) ks3"
    then show "distinct (traceCalls st ks1 ks2 ks3)"
      by (simp add: distinct_traceCalls rangeOrder_def) }
next
  assume c: "classifyLog E lreq = Inr lst"
  note h = HandleLog_submitLoop [OF c, of ks]
  { assume "firstFailure E (projectLogCalls lst ks) n'"
    from submitLoop_firstFailure [OF this] h
    show "\<exists>r. HandleLog E ks lreq = Inr r
            \<and> status r = StatusServiceUnavailable
            \<and> submitted r = take (Suc n') (projectLogCalls lst ks)"
      by auto }
  { assume "noFailure E (projectLogCalls lst ks)"
    from submitLoop_noFailure [OF this] h
    show "\<exists>r. HandleLog E ks lreq = Inr r
            \<and> status r = StatusOK
            \<and> submitted r = projectLogCalls lst ks"
      by auto }
  { assume "rangeOrder (projectLogs lst) ks"
    then show "distinct (projectLogCalls lst ks)"
      by (simp add: distinct_projectLogCalls rangeOrder_def) }
qed

lemmas trace_model_defs =
  classifyTrace_def resourceBody_def spanBody_def eventBody_def classifyEvent_def
  exceptionInput_def routeError_def routeLog_def spanLogRow_def appendTo_def bucket_def
  castString_def setHighlightAttributes_def assert_string_def init_state_def zero_ids_def
  semconv_defs Let_def

lemmas example_defs =
  example_env_def example_failing_env_def example_trace_request_def example_resource_def
  example_span_def
  example_exception_def

theorem C6_witness:
  "\<exists>r. HandleTrace example_failing_env [''A'', ''B''] [] [] example_trace_request = Inr r
     \<and> status r = StatusServiceUnavailable
     \<and> map (\<lambda>c. snd (snd c)) (submitted r) = [''A'', ''B'']
     \<and> distinct (submitted r)"
proof -
  let ?st = "projr (classifyTrace example_failing_env example_trace_request)"
  have "\<not> isl (classifyTrace example_failing_env example_trace_request)"
    by (simp add: trace_model_defs example_defs)
  then have c: "classifyTrace example_failing_env example_trace_request = Inr ?st"
    by (cases "classifyTrace example_failing_env example_trace_request") simp_all
  have k: "map (\<lambda>c. snd (snd c)) (traceCalls ?st [''A'', ''B''] [] []) = [''A'', ''B'']"
    by (simp add: traceCalls_def sessionErrorCalls_def projectErrorCalls_def
        projectLogCalls_def)
  have f: "firstFailure example_failing_env (traceCalls ?st [''A'', ''B''] [] []) 1"
    by (simp add: firstFailure_def traceCalls_def sessionErrorCalls_def projectErrorCalls_def
        projectLogCalls_def example_failing_env_def)
  have o: "rangeOrder (traceErrors ?st) [''A'', ''B''] \<and> rangeOrder (projectErrors ?st) []
            \<and> rangeOrder (projectLogs ?st) []"
    by (simp add: rangeOrder_def trace_model_defs example_defs insert_commute)
  note t = C6_first_failure_stops_routing [THEN conjunct1, rule_format, OF c]
  from t [THEN conjunct1, rule_format, OF f]
  obtain r where "HandleTrace example_failing_env [''A'', ''B''] [] [] example_trace_request = Inr r"
    and "status r = StatusServiceUnavailable"
    and s: "submitted r = take (Suc 1) (traceCalls ?st [''A'', ''B''] [] [])"
    by blast
  moreover from t [THEN conjunct2, THEN conjunct2, rule_format, OF o] s
  have "distinct (submitted r)"
    by (simp add: traceCalls_def sessionErrorCalls_def projectErrorCalls_def projectLogCalls_def)
  ultimately show ?thesis using k
    by (auto simp: traceCalls_def sessionErrorCalls_def projectErrorCalls_def projectLogCalls_def)
qed

section \<open>Grouping maps along the traversal\<close>

lemma bucket_appendTo:
  "bucket (appendTo m k x) k' = (if k' = k then bucket m k @ [x] else bucket m k')"
  by (auto simp: bucket_def appendTo_def Let_def split: option.splits)

lemma appendTo_eq: "appendTo m k x = m(k \<mapsto> bucket m k @ [x])"
  by (auto simp: bucket_def appendTo_def Let_def fun_eq_iff split: option.splits)

lemma grows_refl: "grows st st"
  by (simp add: grows_def)

lemma grows_trans: "grows a b \<Longrightarrow> grows b c \<Longrightarrow> grows a c"
  unfolding grows_def by (meson prefix_order.trans)

lemma grows_same_maps:
  "traceErrors st' = traceErrors st \<Longrightarrow> projectErrors st' = projectErrors st \<Longrightarrow>
   projectLogs st' = projectLogs st \<Longrightarrow> grows st st'"
  by (simp add: grows_def)

lemma grows_routeError: "grows st (routeError i err st)"
  by (simp add: grows_def routeError_def Let_def bucket_appendTo)

lemma grows_routeLog: "grows st (routeLog i noProject logRow st)"
  by (simp add: grows_def routeLog_def Let_def bucket_appendTo)

lemma grows_classifyEvent:
  "grows st (classifyEvent E i ra sl sn scopeName span tagsBytes event st)"
  by (simp add: classifyEvent_def grows_routeError grows_routeLog grows_same_maps
      split: sum.splits)

lemma vars_routeError: "vars (routeError i err st) = vars st"
  by (simp add: routeError_def Let_def)

lemma vars_routeLog: "vars (routeLog i noProject logRow st) = vars st"
  by (simp add: routeLog_def Let_def)

lemma vars_classifyEvent:
  "vars (classifyEvent E i ra sl sn scopeName span tagsBytes event st) = vars st"
  by (simp add: classifyEvent_def vars_routeError vars_routeLog split: sum.splits)

lemma eventBody_Inr:
  assumes "eventBody E i ra sl sn scopeName span tagsBytes event st = Inr st'"
  shows "\<exists>v. setHighlightAttributes E (ev_Attributes event) (vars st i) = Inr v
     \<and> st' = classifyEvent E i ra sl sn scopeName span tagsBytes event
               (st\<lparr>vars := (vars st)(i := v)\<rparr>)"
  using assms by (auto simp: eventBody_def split: sum.splits)

lemma grows_eventBody:
  assumes "eventBody E i ra sl sn scopeName span tagsBytes event st = Inr st'"
  shows "grows st st'"
proof -
  from eventBody_Inr [OF assms] obtain v where
    s: "st' = classifyEvent E i ra sl sn scopeName span tagsBytes event
               (st\<lparr>vars := (vars st)(i := v)\<rparr>)"
    by blast
  have "grows st (st\<lparr>vars := (vars st)(i := v)\<rparr>)"
    by (simp add: grows_same_maps)
  from grows_trans [OF this grows_classifyEvent] s show ?thesis by simp
qed

lemma visitBody_Inr:
  assumes "visitBody E i ra sl sn x st = Inr st'"
  shows "grows st st'"
    and "resolve E (visit_maps [x]) (vars st i) = Inr (vars st' i)"
    and "j \<noteq> i \<Longrightarrow> vars st' j = vars st j"
proof -
  show "grows st st'"
  proof (cases x)
    case VisitSkippedSpan
    with assms show ?thesis by (auto simp: grows_same_maps)
  next
    case (VisitSpanAttributes a)
    with assms show ?thesis by (auto simp: grows_same_maps split: sum.splits)
  next
    case (VisitEvent scopeName span tagsBytes event)
    with assms show ?thesis by (auto dest: grows_eventBody)
  qed
  show "resolve E (visit_maps [x]) (vars st i) = Inr (vars st' i)"
  proof (cases x)
    case VisitSkippedSpan
    with assms show ?thesis by auto
  next
    case (VisitSpanAttributes a)
    with assms show ?thesis by (auto split: sum.splits)
  next
    case (VisitEvent scopeName span tagsBytes event)
    with assms have "eventBody E i ra sl sn scopeName span tagsBytes event st = Inr st'"
      by simp
    from eventBody_Inr [OF this] VisitEvent show ?thesis
      by (auto simp: vars_classifyEvent)
  qed
  assume "j \<noteq> i"
  show "vars st' j = vars st j"
  proof (cases x)
    case VisitSkippedSpan
    with assms show ?thesis by auto
  next
    case (VisitSpanAttributes a)
    with assms \<open>j \<noteq> i\<close> show ?thesis by (auto split: sum.splits)
  next
    case (VisitEvent scopeName span tagsBytes event)
    with assms have "eventBody E i ra sl sn scopeName span tagsBytes event st = Inr st'"
      by simp
    from eventBody_Inr [OF this] \<open>j \<noteq> i\<close> show ?thesis
      by (auto simp: vars_classifyEvent)
  qed
qed

lemma visit_maps_append: "visit_maps (xs @ ys) = visit_maps xs @ visit_maps ys"
  by (induction xs rule: visit_maps.induct) simp_all

lemma visitsLoop_append:
  "visitsLoop E i ra sl sn (xs @ ys) st =
     (case visitsLoop E i ra sl sn xs st of
        Inl p \<Rightarrow> Inl p
      | Inr st1 \<Rightarrow> visitsLoop E i ra sl sn ys st1)"
  by (induction xs arbitrary: st) (simp_all split: sum.splits)

lemma visitsLoop_Inr:
  assumes "visitsLoop E i ra sl sn xs st = Inr st'"
  shows "grows st st'
     \<and> resolve E (visit_maps xs) (vars st i) = Inr (vars st' i)
     \<and> (\<forall>j. j \<noteq> i \<longrightarrow> vars st' j = vars st j)"
  using assms
proof (induction xs arbitrary: st)
  case Nil
  then show ?case by (simp add: grows_refl)
next
  case (Cons x xs)
  then obtain st1 where b: "visitBody E i ra sl sn x st = Inr st1"
    and l: "visitsLoop E i ra sl sn xs st1 = Inr st'"
    by (auto split: sum.splits)
  note v = visitBody_Inr [OF b]
  note h = Cons.IH [OF l]
  have "grows st st'"
    using v(1) h grows_trans by blast
  moreover have "resolve E (visit_maps (x # xs)) (vars st i) = Inr (vars st' i)"
    using visit_maps_append [of "[x]" xs] v(2) h by (simp add: resolve_append)
  moreover have "\<forall>j. j \<noteq> i \<longrightarrow> vars st' j = vars st j"
    using v(3) h by simp
  ultimately show ?case by blast
qed

lemma eventsLoop_visits:
  "eventsLoop E i ra sl sn scopeName span tagsBytes events st =
     visitsLoop E i ra sl sn (map (VisitEvent scopeName span tagsBytes) events) st"
  by (induction events arbitrary: st) (simp_all split: sum.splits)

lemma spanBody_visits:
  "spanBody E i ra sl sn scopeName span st =
     visitsLoop E i ra sl sn (span_visits E scopeName span) st"
  by (simp add: spanBody_def span_visits_def eventsLoop_visits split: sum.splits)

lemma spansLoop_visits:
  "spansLoop E i ra sl sn scopeName spans st =
     visitsLoop E i ra sl sn (concat (map (span_visits E scopeName) spans)) st"
  by (induction spans arbitrary: st)
    (simp_all add: spanBody_visits visitsLoop_append split: sum.splits)

lemma scopesLoop_visits:
  "scopesLoop E i ra sl sn scopes st =
     visitsLoop E i ra sl sn (concat (map (scope_visits E) scopes)) st"
  by (induction scopes arbitrary: st)
    (simp_all add: spansLoop_visits scope_visits_def visitsLoop_append split: sum.splits)

lemma resourceBody_visits:
  "resourceBody E i r st =
     (case setHighlightAttributes E (rs_Attributes r) zero_ids of
        Inl p \<Rightarrow> Inl p
      | Inr v \<Rightarrow>
          visitsLoop E i (rs_Attributes r)
            (castString (rs_Attributes r TelemetrySDKLanguageKey) '''')
            (castString (rs_Attributes r ServiceNameKey) '''')
            (resource_visits E r) (st\<lparr>vars := (vars st)(i := v)\<rparr>))"
  by (simp add: resourceBody_def resource_visits_def scopesLoop_visits Let_def
      split: sum.splits)

lemma resourceBody_Inr:
  assumes "resourceBody E i r st = Inr st'"
  shows "grows st st'" and "j \<noteq> i \<Longrightarrow> vars st' j = vars st j"
proof -
  from assms obtain v where
    l: "visitsLoop E i (rs_Attributes r)
            (castString (rs_Attributes r TelemetrySDKLanguageKey) '''')
            (castString (rs_Attributes r ServiceNameKey) '''')
            (resource_visits E r) (st\<lparr>vars := (vars st)(i := v)\<rparr>) = Inr st'"
    by (auto simp: resourceBody_visits split: sum.splits)
  note h = visitsLoop_Inr [OF l]
  have "grows st (st\<lparr>vars := (vars st)(i := v)\<rparr>)"
    by (simp add: grows_same_maps)
  with h show "grows st st'"
    using grows_trans by blast
  assume "j \<noteq> i"
  with h show "vars st' j = vars st j" by simp
qed

lemma resourcesLoop_append:
  "resourcesLoop E i (xs @ ys) st =
     (case resourcesLoop E i xs st of
        Inl p \<Rightarrow> Inl p
      | Inr st1 \<Rightarrow> resourcesLoop E (i + length xs) ys st1)"
  by (induction xs arbitrary: i st) (simp_all split: sum.splits)

lemma resourcesLoop_Inr:
  assumes "resourcesLoop E i rs st = Inr st'"
  shows "grows st st' \<and> (\<forall>j<i. vars st' j = vars st j)"
  using assms
proof (induction rs arbitrary: i st)
  case Nil
  then show ?case by (simp add: grows_refl)
next
  case (Cons r rs)
  then obtain st1 where b: "resourceBody E i r st = Inr st1"
    and l: "resourcesLoop E (Suc i) rs st1 = Inr st'"
    by (auto split: sum.splits)
  note h = Cons.IH [OF l]
  have "grows st st'"
    using resourceBody_Inr(1) [OF b] h grows_trans by blast
  moreover have "\<forall>j<i. vars st' j = vars st j"
    using resourceBody_Inr(2) [OF b] h by auto
  ultimately show ?case by blast
qed

lemma routeError_cases:
  "sessionID (vars st i) \<noteq> '''' \<Longrightarrow>
     routeError i err st =
       st\<lparr>traceErrors := (traceErrors st)(sessionID (vars st i) \<mapsto>
             bucket (traceErrors st) (sessionID (vars st i)) @ [err])\<rparr>"
  "sessionID (vars st i) = '''' \<Longrightarrow> projectID (vars st i) \<noteq> '''' \<Longrightarrow>
     routeError i err st =
       st\<lparr>projectErrors := (projectErrors st)(projectID (vars st i) \<mapsto>
             bucket (projectErrors st) (projectID (vars st i)) @ [err])\<rparr>"
  "sessionID (vars st i) = '''' \<Longrightarrow> projectID (vars st i) = '''' \<Longrightarrow>
     routeError i err st = st\<lparr>logged := logged st @ [ErrorNoSessionNoProject err]\<rparr>"
  by (simp_all add: routeError_def Let_def appendTo_eq)

lemma routeLog_cases:
  "projectID (vars st i) \<noteq> '''' \<Longrightarrow>
     routeLog i noProject logRow st =
       st\<lparr>projectLogs := (projectLogs st)(projectID (vars st i) \<mapsto>
             bucket (projectLogs st) (projectID (vars st i)) @ [logRow])\<rparr>"
  "projectID (vars st i) = '''' \<Longrightarrow>
     routeLog i noProject logRow st = st\<lparr>logged := logged st @ [noProject logRow]\<rparr>"
  by (simp_all add: routeLog_def Let_def appendTo_eq)

section \<open>The buckets of a batch\<close>

lemma sessionSlice_append: "sessionSlice k (ps @ qs) = sessionSlice k ps @ sessionSlice k qs"
  by (induction k ps rule: sessionSlice.induct) simp_all

lemma projectSlice_append: "projectSlice k (ps @ qs) = projectSlice k ps @ projectSlice k qs"
  by (induction k ps rule: projectSlice.induct) simp_all

lemma logSlice_append: "logSlice k (ps @ qs) = logSlice k ps @ logSlice k qs"
  by (induction k ps rule: logSlice.induct) simp_all

lemma diagnostics_append: "diagnostics (ps @ qs) = diagnostics ps @ diagnostics qs"
  by (induction ps rule: diagnostics.induct) simp_all

lemmas slice_append =
  sessionSlice_append projectSlice_append logSlice_append diagnostics_append

lemma slice_Cons:
  "sessionSlice k (p # ps) = sessionSlice k [p] @ sessionSlice k ps"
  "projectSlice k (p # ps) = projectSlice k [p] @ projectSlice k ps"
  "logSlice k (p # ps) = logSlice k [p] @ logSlice k ps"
  "diagnostics (p # ps) = diagnostics [p] @ diagnostics ps"
  using sessionSlice_append [of k "[p]" ps] projectSlice_append [of k "[p]" ps]
    logSlice_append [of k "[p]" ps] diagnostics_append [of "[p]" ps]
  by simp_all

text \<open>
  The classification of an event puts the record where its placement says, at the end of
  the slice, and logs the diagnostic of a dropped record.
\<close>

lemma classifyEvent_placement:
  fixes st :: state
  assumes "st' = classifyEvent E i ra sl sn scopeName span tagsBytes event st"
    and "p = placement_of E i ra sl sn scopeName span tagsBytes event (vars st i)"
  shows "bucket (traceErrors st') k = bucket (traceErrors st) k @ sessionSlice k [p]"
    and "bucket (projectErrors st') k = bucket (projectErrors st) k @ projectSlice k [p]"
    and "bucket (projectLogs st') k = bucket (projectLogs st) k @ logSlice k [p]"
    and "logged st' = logged st @ diagnostics [p]"
  unfolding assms
  by (simp_all add: classifyEvent_def placement_of_def routeError_def routeLog_def Let_def
      bucket_appendTo split: sum.splits)

lemma eventBody_placement:
  assumes "eventBody E i ra sl sn scopeName span tagsBytes event st = Inr st'"
    and "p = placement_of E i ra sl sn scopeName span tagsBytes event (vars st' i)"
  shows "bucket (traceErrors st') k = bucket (traceErrors st) k @ sessionSlice k [p]"
    and "bucket (projectErrors st') k = bucket (projectErrors st) k @ projectSlice k [p]"
    and "bucket (projectLogs st') k = bucket (projectLogs st) k @ logSlice k [p]"
    and "logged st' = logged st @ diagnostics [p]"
proof -
  from eventBody_Inr [OF assms(1)] obtain v where
    s: "st' = classifyEvent E i ra sl sn scopeName span tagsBytes event
               (st\<lparr>vars := (vars st)(i := v)\<rparr>)"
    by blast
  then have "vars st' i = v"
    by (simp add: vars_classifyEvent)
  with assms(2) have p: "p = placement_of E i ra sl sn scopeName span tagsBytes event
      (vars (st\<lparr>vars := (vars st)(i := v)\<rparr>) i)"
    by simp
  from classifyEvent_placement [OF s p]
  show "bucket (traceErrors st') k = bucket (traceErrors st) k @ sessionSlice k [p]"
    and "bucket (projectErrors st') k = bucket (projectErrors st) k @ projectSlice k [p]"
    and "bucket (projectLogs st') k = bucket (projectLogs st) k @ logSlice k [p]"
    and "logged st' = logged st @ diagnostics [p]"
    by simp_all
qed

lemma visitsLoop_placements:
  assumes "visitsLoop E i ra sl sn xs st = Inr st'"
  shows "bucket (traceErrors st') k =
           bucket (traceErrors st) k @ sessionSlice k (visit_placements E i ra sl sn xs (vars st i))
     \<and> bucket (projectErrors st') k =
           bucket (projectErrors st) k @ projectSlice k (visit_placements E i ra sl sn xs (vars st i))
     \<and> bucket (projectLogs st') k =
           bucket (projectLogs st) k @ logSlice k (visit_placements E i ra sl sn xs (vars st i))
     \<and> logged st' = logged st @ diagnostics (visit_placements E i ra sl sn xs (vars st i))"
  using assms
proof (induction xs arbitrary: st)
  case Nil
  then show ?case by simp
next
  case (Cons x xs)
  then obtain st1 where b: "visitBody E i ra sl sn x st = Inr st1"
    and l: "visitsLoop E i ra sl sn xs st1 = Inr st'"
    by (auto split: sum.splits)
  note h = Cons.IH [OF l]
  show ?case
  proof (cases x)
    case VisitSkippedSpan
    with b have "st1 = st\<lparr>logged := logged st @ [ErrorFailedToFormatErrorAttributes]\<rparr>"
      by auto
    with h VisitSkippedSpan show ?thesis by simp
  next
    case (VisitSpanAttributes a)
    with b obtain v1 where "setHighlightAttributes E a (vars st i) = Inr v1"
      and "st1 = st\<lparr>vars := (vars st)(i := v1)\<rparr>"
      by (auto split: sum.splits)
    with h VisitSpanAttributes show ?thesis by simp
  next
    case (VisitEvent scopeName span tagsBytes event)
    with b have e: "eventBody E i ra sl sn scopeName span tagsBytes event st = Inr st1"
      by simp
    from eventBody_Inr [OF e] obtain v1 where
      s: "setHighlightAttributes E (ev_Attributes event) (vars st i) = Inr v1"
      and "st1 = classifyEvent E i ra sl sn scopeName span tagsBytes event
                   (st\<lparr>vars := (vars st)(i := v1)\<rparr>)"
      by blast
    then have v: "vars st1 i = v1"
      by (simp add: vars_classifyEvent)
    note p = eventBody_placement [OF e refl]
    have "visit_placements E i ra sl sn (x # xs) (vars st i) =
            placement_of E i ra sl sn scopeName span tagsBytes event v1
              # visit_placements E i ra sl sn xs v1"
      using VisitEvent s by simp
    then show ?thesis
      using h p(1-3) [where k = k] p(4) v
      by (simp add: slice_Cons
          [where p = "placement_of E i ra sl sn scopeName span tagsBytes event v1"
             and ps = "visit_placements E i ra sl sn xs v1"])
  qed
qed

lemma resourceBody_placements:
  assumes "resourceBody E i r st = Inr st'"
  shows "bucket (traceErrors st') k =
           bucket (traceErrors st) k @ sessionSlice k (resource_placements E i r)
     \<and> bucket (projectErrors st') k =
           bucket (projectErrors st) k @ projectSlice k (resource_placements E i r)
     \<and> bucket (projectLogs st') k =
           bucket (projectLogs st) k @ logSlice k (resource_placements E i r)
     \<and> logged st' = logged st @ diagnostics (resource_placements E i r)"
proof -
  from assms obtain v where
    s: "setHighlightAttributes E (rs_Attributes r) zero_ids = Inr v"
    and l: "visitsLoop E i (rs_Attributes r)
            (castString (rs_Attributes r TelemetrySDKLanguageKey) '''')
            (castString (rs_Attributes r ServiceNameKey) '''')
            (resource_visits E r) (st\<lparr>vars := (vars st)(i := v)\<rparr>) = Inr st'"
    by (auto simp: resourceBody_visits split: sum.splits)
  from visitsLoop_placements [OF l, where k = k] s show ?thesis
    by (simp add: resource_placements_def)
qed

lemma resourcesLoop_placements:
  assumes "resourcesLoop E i rs st = Inr st'"
  shows "bucket (traceErrors st') k =
           bucket (traceErrors st) k @ sessionSlice k (batch_placements E i rs)
     \<and> bucket (projectErrors st') k =
           bucket (projectErrors st) k @ projectSlice k (batch_placements E i rs)
     \<and> bucket (projectLogs st') k =
           bucket (projectLogs st) k @ logSlice k (batch_placements E i rs)
     \<and> logged st' = logged st @ diagnostics (batch_placements E i rs)"
  using assms
proof (induction rs arbitrary: i st)
  case Nil
  then show ?case by simp
next
  case (Cons r rs)
  then obtain st1 where b: "resourceBody E i r st = Inr st1"
    and l: "resourcesLoop E (Suc i) rs st1 = Inr st'"
    by (auto split: sum.splits)
  from Cons.IH [OF l] resourceBody_placements [OF b, where k = k] show ?case
    by (simp add: slice_append)
qed

text \<open>
  Claim C5. Each event of the traversal has one placement: its error record in the
  session-keyed bucket when the session id is non-empty, else in the project-keyed bucket
  when the project id is non-empty, else dropped with a diagnostic; its log row in the
  log bucket under the project id, or dropped with a diagnostic. For every batch that the
  trace handler classifies, the slice under any key \<open>k\<close> of each of the three maps is
  exactly the list of the records placed in that bucket under exactly \<open>k\<close>, in the order
  of the traversal of the batch, and the log holds the diagnostics of the dropped ones in
  that order: every record that was built is in one slice of one map, or was dropped
  with its diagnostic. The body of the event loop does this one event at a time: it puts
  the record of the event at the end of the slice that the placement names and leaves
  every other slice as it was.
\<close>

theorem C5_buckets_are_the_placements_in_traversal_order:
  assumes "classifyTrace E req = Inr stF"
  shows "bucket (traceErrors stF) k = sessionSlice k (batch_placements E 0 req)
     \<and> bucket (projectErrors stF) k = projectSlice k (batch_placements E 0 req)
     \<and> bucket (projectLogs stF) k = logSlice k (batch_placements E 0 req)
     \<and> logged stF = diagnostics (batch_placements E 0 req)
     \<and> (eventBody E i ra sl sn scopeName span tagsBytes event st = Inr st' \<longrightarrow>
          bucket (traceErrors st') k =
            bucket (traceErrors st) k
              @ sessionSlice k [placement_of E i ra sl sn scopeName span tagsBytes event (vars st' i)]
          \<and> bucket (projectErrors st') k =
            bucket (projectErrors st) k
              @ projectSlice k [placement_of E i ra sl sn scopeName span tagsBytes event (vars st' i)]
          \<and> bucket (projectLogs st') k =
            bucket (projectLogs st) k
              @ logSlice k [placement_of E i ra sl sn scopeName span tagsBytes event (vars st' i)]
          \<and> logged st' =
            logged st
              @ diagnostics [placement_of E i ra sl sn scopeName span tagsBytes event (vars st' i)])"
proof -
  from assms have "resourcesLoop E 0 req init_state = Inr stF"
    by (simp add: classifyTrace_def)
  from resourcesLoop_placements [OF this, where k = k]
  have "bucket (traceErrors stF) k = sessionSlice k (batch_placements E 0 req)
     \<and> bucket (projectErrors stF) k = projectSlice k (batch_placements E 0 req)
     \<and> bucket (projectLogs stF) k = logSlice k (batch_placements E 0 req)
     \<and> logged stF = diagnostics (batch_placements E 0 req)"
    by (simp add: init_state_def bucket_def)
  moreover have "eventBody E i ra sl sn scopeName span tagsBytes event st = Inr st' \<longrightarrow>
          bucket (traceErrors st') k =
            bucket (traceErrors st) k
              @ sessionSlice k [placement_of E i ra sl sn scopeName span tagsBytes event (vars st' i)]
          \<and> bucket (projectErrors st') k =
            bucket (projectErrors st) k
              @ projectSlice k [placement_of E i ra sl sn scopeName span tagsBytes event (vars st' i)]
          \<and> bucket (projectLogs st') k =
            bucket (projectLogs st) k
              @ logSlice k [placement_of E i ra sl sn scopeName span tagsBytes event (vars st' i)]
          \<and> logged st' =
            logged st
              @ diagnostics [placement_of E i ra sl sn scopeName span tagsBytes event (vars st' i)]"
  proof
    assume e: "eventBody E i ra sl sn scopeName span tagsBytes event st = Inr st'"
    from eventBody_placement [OF e refl]
    show "bucket (traceErrors st') k =
            bucket (traceErrors st) k
              @ sessionSlice k [placement_of E i ra sl sn scopeName span tagsBytes event (vars st' i)]
          \<and> bucket (projectErrors st') k =
            bucket (projectErrors st) k
              @ projectSlice k [placement_of E i ra sl sn scopeName span tagsBytes event (vars st' i)]
          \<and> bucket (projectLogs st') k =
            bucket (projectLogs st) k
              @ logSlice k [placement_of E i ra sl sn scopeName span tagsBytes event (vars st' i)]
          \<and> logged st' =
            logged st
              @ diagnostics [placement_of E i ra sl sn scopeName span tagsBytes event (vars st' i)]"
      by blast
  qed
  ultimately show ?thesis
    by blast
qed

theorem C5_witness:
  "map Timestamp
     (bucket (traceErrors (projr (classifyTrace example_env example_trace_request))) ''A'')
     = [1, 2]
   \<and> map Timestamp
       (bucket (traceErrors (projr (classifyTrace example_env example_trace_request))) ''B'')
     = [3]
   \<and> bucket (projectErrors (projr (classifyTrace example_env example_trace_request))) ''A'' = []
   \<and> logged (projr (classifyTrace example_env example_trace_request)) = []"
proof -
  let ?st = "projr (classifyTrace example_env example_trace_request)"
  let ?ps = "batch_placements example_env 0 example_trace_request"
  have "\<not> isl (classifyTrace example_env example_trace_request)"
    by (simp add: trace_model_defs example_defs)
  then have c: "classifyTrace example_env example_trace_request = Inr ?st"
    by (cases "classifyTrace example_env example_trace_request") simp_all
  note t = C5_buckets_are_the_placements_in_traversal_order [OF c]
  have a: "bucket (traceErrors ?st) ''A'' = sessionSlice ''A'' ?ps"
    and p: "bucket (projectErrors ?st) ''A'' = projectSlice ''A'' ?ps"
    and l: "logged ?st = diagnostics ?ps"
    using t [of "''A''"] by blast+
  have b: "bucket (traceErrors ?st) ''B'' = sessionSlice ''B'' ?ps"
    using t [of "''B''"] by blast
  have ps: "?ps =
     [InSessionBucket ''A''
        (projr (exceptionInput example_env 0 '''' '''' ''s'' example_span ''{}''
           (example_exception 1 [(''highlight.session_id'', AnyString ''A'')]))),
      InSessionBucket ''A''
        (projr (exceptionInput example_env 0 '''' '''' ''s'' example_span ''{}''
           (example_exception 2 []))),
      InSessionBucket ''B''
        (projr (exceptionInput example_env 0 '''' '''' ''s'' example_span ''{}''
           (example_exception 3 [(''highlight.session_id'', AnyString ''B'')])))]"
    by (simp add: resource_placements_def resource_visits_def scope_visits_def span_visits_def
        placement_of_def exceptionInput_def castString_def setHighlightAttributes_def
        assert_string_def zero_ids_def semconv_defs Let_def example_defs)
  have "map Timestamp (sessionSlice ''A'' ?ps) = [1, 2]"
    and "map Timestamp (sessionSlice ''B'' ?ps) = [3]"
    and "projectSlice ''A'' ?ps = []"
    and "diagnostics ?ps = []"
    unfolding ps
    by (simp_all add: exceptionInput_def castString_def semconv_defs Let_def example_exception_def)
  with a b p l show ?thesis by simp
qed

section \<open>Identifiers of a classified record\<close>

lemma set_bucket_grows:
  assumes "grows st st'"
  shows "set (bucket (traceErrors st) k) \<subseteq> set (bucket (traceErrors st') k)"
    and "set (bucket (projectErrors st) k) \<subseteq> set (bucket (projectErrors st') k)"
    and "set (bucket (projectLogs st) k) \<subseteq> set (bucket (projectLogs st') k)"
  using assms by (auto simp: grows_def dest: set_mono_prefix)

text \<open>
  Claim C1, as the code has it. Take any trace batch, a resource group \<open>r\<close> of it and an
  event of \<open>r\<close>, with the visits of \<open>r\<close> that come before it (\<open>pre\<close>) and after it
  (\<open>post\<close>); the body of the resource loop is the loop over these visits. The handler
  classifies the event in a state whose identifier variables hold
  \<open>v\<close>, the result of applying to empty identifiers the resource attributes, then the
  attribute maps of all the visits before the event, earlier sibling spans and events
  included, then the event's own attributes. Nothing of another resource group and
  nothing of a later span or event enters \<open>v\<close>. What the classification of the event files
  is still in its slice, in place, at the end of the batch: the error record under the
  session id of \<open>v\<close>, or else under its project id, and the log row, which holds the
  session id of \<open>v\<close> by value, under the project id of \<open>v\<close>.
\<close>

theorem C1_identifiers_accumulate_within_resource:
  assumes "classifyTrace E (before @ r # after) = Inr stF"
    and "resource_visits E r = pre @ VisitEvent scopeName span tagsBytes event # post"
    and "i = length before"
    and "ra = rs_Attributes r"
    and "sl = castString (ra TelemetrySDKLanguageKey) ''''"
    and "sn = castString (ra ServiceNameKey) ''''"
  shows "\<exists>stA v0 st0 v stB.
       resourcesLoop E 0 before init_state = Inr stA
     \<and> setHighlightAttributes E ra zero_ids = Inr v0
     \<and> resourceBody E i r stA =
         visitsLoop E i ra sl sn (resource_visits E r) (stA\<lparr>vars := (vars stA)(i := v0)\<rparr>)
     \<and> visitsLoop E i ra sl sn pre (stA\<lparr>vars := (vars stA)(i := v0)\<rparr>) = Inr st0
     \<and> setHighlightAttributes E (ev_Attributes event) (vars st0 i) = Inr v
     \<and> resolve E (ra # visit_maps pre @ [ev_Attributes event]) zero_ids = Inr v
     \<and> visitsLoop E i ra sl sn post
         (classifyEvent E i ra sl sn scopeName span tagsBytes event
            (st0\<lparr>vars := (vars st0)(i := v)\<rparr>)) = Inr stB
     \<and> resourcesLoop E (Suc i) after stB = Inr stF
     \<and> grows (classifyEvent E i ra sl sn scopeName span tagsBytes event
                (st0\<lparr>vars := (vars st0)(i := v)\<rparr>)) stF
     \<and> (\<forall>err. ev_Name event = ExceptionEventName \<longrightarrow>
            exceptionInput E i sl sn scopeName span tagsBytes event = Inr err \<longrightarrow>
              (sessionID v \<noteq> '''' \<longrightarrow> err \<in> set (bucket (traceErrors stF) (sessionID v)))
            \<and> (sessionID v = '''' \<longrightarrow> projectID v \<noteq> '''' \<longrightarrow>
                 err \<in> set (bucket (projectErrors stF) (projectID v))))
     \<and> (\<forall>row. ev_Name event \<noteq> ExceptionEventName \<longrightarrow> ev_Name event = LogName E \<longrightarrow>
            spanLogRow E v ra sn span event = Inr row \<longrightarrow> projectID v \<noteq> '''' \<longrightarrow>
              row \<in> set (bucket (projectLogs stF) (projectID v))
              \<and> SecureSessionId row = sessionID v)"
proof -
  from assms(1) obtain stA stB0 where
    A: "resourcesLoop E 0 before init_state = Inr stA"
    and B: "resourceBody E i r stA = Inr stB0"
    and C: "resourcesLoop E (Suc i) after stB0 = Inr stF"
    by (auto simp: classifyTrace_def resourcesLoop_append assms(3) split: sum.splits)
  from B obtain v0 where
    r0: "setHighlightAttributes E ra zero_ids = Inr v0"
    and L: "visitsLoop E i ra sl sn (pre @ VisitEvent scopeName span tagsBytes event # post)
              (stA\<lparr>vars := (vars stA)(i := v0)\<rparr>) = Inr stB0"
    by (auto simp: resourceBody_visits assms(2,4,5,6) split: sum.splits)
  let ?s = "stA\<lparr>vars := (vars stA)(i := v0)\<rparr>"
  from L obtain st0 st2 where
    P: "visitsLoop E i ra sl sn pre ?s = Inr st0"
    and Ev: "eventBody E i ra sl sn scopeName span tagsBytes event st0 = Inr st2"
    and Q: "visitsLoop E i ra sl sn post st2 = Inr stB0"
    by (auto simp: visitsLoop_append split: sum.splits)
  from eventBody_Inr [OF Ev] obtain v where
    sv: "setHighlightAttributes E (ev_Attributes event) (vars st0 i) = Inr v"
    and st2: "st2 = classifyEvent E i ra sl sn scopeName span tagsBytes event
                      (st0\<lparr>vars := (vars st0)(i := v)\<rparr>)"
    by blast
  let ?s1 = "st0\<lparr>vars := (vars st0)(i := v)\<rparr>"
  have "resolve E (visit_maps pre) (vars ?s i) = Inr (vars st0 i)"
    using visitsLoop_Inr [OF P] by blast
  then have pre: "resolve E (visit_maps pre) v0 = Inr (vars st0 i)"
    by simp
  have res: "resolve E (ra # visit_maps pre @ [ev_Attributes event]) zero_ids = Inr v"
    using r0 pre sv by (simp add: resolve_append)
  have "grows st2 stB0"
    using visitsLoop_Inr [OF Q] by blast
  moreover have "grows stB0 stF"
    using resourcesLoop_Inr [OF C] by blast
  ultimately have g: "grows st2 stF"
    by (rule grows_trans)
  have vs: "vars ?s1 i = v"
    by simp
  have exc: "\<forall>err. ev_Name event = ExceptionEventName \<longrightarrow>
            exceptionInput E i sl sn scopeName span tagsBytes event = Inr err \<longrightarrow>
              (sessionID v \<noteq> '''' \<longrightarrow> err \<in> set (bucket (traceErrors stF) (sessionID v)))
            \<and> (sessionID v = '''' \<longrightarrow> projectID v \<noteq> '''' \<longrightarrow>
                 err \<in> set (bucket (projectErrors stF) (projectID v)))"
  proof (intro allI impI conjI)
    fix err
    assume n: "ev_Name event = ExceptionEventName"
      and e: "exceptionInput E i sl sn scopeName span tagsBytes event = Inr err"
    then have c: "st2 = routeError i err ?s1"
      by (simp add: st2 classifyEvent_def)
    { assume "sessionID v \<noteq> ''''"
      then have "err \<in> set (bucket (traceErrors st2) (sessionID v))"
        using c vs by (simp add: routeError_def Let_def bucket_appendTo)
      with set_bucket_grows(1) [OF g]
      show "err \<in> set (bucket (traceErrors stF) (sessionID v))" by blast }
    { assume "sessionID v = ''''" and "projectID v \<noteq> ''''"
      then have "err \<in> set (bucket (projectErrors st2) (projectID v))"
        using c vs by (simp add: routeError_def Let_def bucket_appendTo)
      with set_bucket_grows(2) [OF g]
      show "err \<in> set (bucket (projectErrors stF) (projectID v))" by blast }
  qed
  have log: "\<forall>row. ev_Name event \<noteq> ExceptionEventName \<longrightarrow> ev_Name event = LogName E \<longrightarrow>
            spanLogRow E v ra sn span event = Inr row \<longrightarrow> projectID v \<noteq> '''' \<longrightarrow>
              row \<in> set (bucket (projectLogs stF) (projectID v))
              \<and> SecureSessionId row = sessionID v"
  proof (intro allI impI conjI)
    fix row
    assume n: "ev_Name event \<noteq> ExceptionEventName" "ev_Name event = LogName E"
      and e: "spanLogRow E v ra sn span event = Inr row"
      and p: "projectID v \<noteq> ''''"
    from n e have c: "st2 = routeLog i ErrorSpanLogNoProject row ?s1"
      by (simp add: st2 classifyEvent_def)
    from p have "row \<in> set (bucket (projectLogs st2) (projectID v))"
      using c vs by (simp add: routeLog_def Let_def bucket_appendTo)
    with set_bucket_grows(3) [OF g]
    show "row \<in> set (bucket (projectLogs stF) (projectID v))" by blast
    from e show "SecureSessionId row = sessionID v"
      by (auto simp: spanLogRow_def Let_def split: if_splits sum.splits)
  qed
  have rb: "resourceBody E i r stA =
         visitsLoop E i ra sl sn (resource_visits E r) (stA\<lparr>vars := (vars stA)(i := v0)\<rparr>)"
    using r0 by (simp add: resourceBody_visits assms(4,5,6))
  from A r0 rb P sv res Q C g exc log show ?thesis
    unfolding st2 by blast
qed

theorem C1_witness:
  "\<exists>v err.
     resolve example_env
       [Map.empty, Map.empty,
        ev_Attributes (example_exception 1 [(''highlight.session_id'', AnyString ''A'')]),
        ev_Attributes (example_exception 2 [])] zero_ids = Inr v
     \<and> sessionID v = ''A''
     \<and> exceptionInput example_env 0 '''' '''' ''s'' example_span ''{}'' (example_exception 2 [])
         = Inr err
     \<and> err \<in> set (bucket (traceErrors (projr (classifyTrace example_env example_trace_request)))
                  ''A'')"
proof -
  let ?e1 = "example_exception 1 [(''highlight.session_id'', AnyString ''A'')]"
  let ?e2 = "example_exception 2 []"
  let ?e3 = "example_exception 3 [(''highlight.session_id'', AnyString ''B'')]"
  let ?pre = "[VisitSpanAttributes Map.empty, VisitEvent ''s'' example_span ''{}'' ?e1]"
  let ?post = "[VisitEvent ''s'' example_span ''{}'' ?e3]"
  let ?stF = "projr (classifyTrace example_env example_trace_request)"
  have "\<not> isl (classifyTrace example_env example_trace_request)"
    by (simp add: trace_model_defs example_defs)
  then have c: "classifyTrace example_env ([] @ example_resource # []) = Inr ?stF"
    by (cases "classifyTrace example_env example_trace_request")
      (simp_all add: example_trace_request_def)
  have v: "resource_visits example_env example_resource
             = ?pre @ VisitEvent ''s'' example_span ''{}'' ?e2 # ?post"
    by (simp add: resource_visits_def scope_visits_def span_visits_def example_resource_def
        example_span_def example_env_def)
  have a: "rs_Attributes example_resource = Map.empty"
    by (simp add: example_resource_def)
  have sl: "'''' = castString (Map.empty TelemetrySDKLanguageKey) ''''"
    and sn: "'''' = castString (Map.empty ServiceNameKey) ''''"
    by (simp_all add: castString_def)
  from C1_identifiers_accumulate_within_resource [OF c v _ a [symmetric] sl sn, of 0]
  obtain w where
    r: "resolve example_env (Map.empty # visit_maps ?pre @ [ev_Attributes ?e2]) zero_ids = Inr w"
    and m: "\<forall>err. ev_Name ?e2 = ExceptionEventName \<longrightarrow>
            exceptionInput example_env 0 '''' '''' ''s'' example_span ''{}'' ?e2 = Inr err \<longrightarrow>
              (sessionID w \<noteq> '''' \<longrightarrow> err \<in> set (bucket (traceErrors ?stF) (sessionID w)))
            \<and> (sessionID w = '''' \<longrightarrow> projectID w \<noteq> '''' \<longrightarrow>
                 err \<in> set (bucket (projectErrors ?stF) (projectID w)))"
    by auto
  have "resolve example_env (Map.empty # visit_maps ?pre @ [ev_Attributes ?e2]) zero_ids
          = Inr (zero_ids\<lparr>sessionID := ''A''\<rparr>)"
    by (simp add: setHighlightAttributes_def assert_string_def example_env_def
        example_exception_def zero_ids_def)
  with r have w: "w = zero_ids\<lparr>sessionID := ''A''\<rparr>"
    by simp
  have n: "ev_Name ?e2 = ExceptionEventName"
    by (simp add: example_exception_def semconv_defs)
  obtain err where
    e: "exceptionInput example_env 0 '''' '''' ''s'' example_span ''{}'' ?e2 = Inr err"
    by (simp add: exceptionInput_def example_exception_def castString_def semconv_defs Let_def)
  from m n e w have "err \<in> set (bucket (traceErrors ?stF) ''A'')"
    by simp
  with r w e show ?thesis
    by auto
qed

text \<open>
  Claim C1 as the spec states it fails on the example trace request, whose span has three
  exception events: the first names session \<open>A\<close>, the second names no identifier, the
  third names session \<open>B\<close>. The ancestor chain of the second event (resource, span, the
  event itself) resolves to no identifier at all, yet the record of the second event
  (timestamp 2) is filed under session \<open>A\<close>, which its earlier sibling set. And the
  override of the third event changes the session id of the two records filed before:
  their \<^verbatim>\<open>SessionSecureID\<close> points to the session variable, which holds \<open>B\<close> when the
  records are submitted.
\<close>

theorem C1_counterexample:
  "\<not> isl (classifyTrace example_env example_trace_request)
   \<and> resolve example_env
       [rs_Attributes example_resource, sp_Attributes example_span,
        ev_Attributes (example_exception 2 [])] zero_ids = Inr zero_ids
   \<and> map Timestamp
       (bucket (traceErrors (projr (classifyTrace example_env example_trace_request))) ''A'')
     = [1, 2]
   \<and> map (deref (projr (classifyTrace example_env example_trace_request)))
       (map SessionSecureID
          (bucket (traceErrors (projr (classifyTrace example_env example_trace_request))) ''A''))
     = [''B'', ''B'']"
proof (intro conjI)
  show "\<not> isl (classifyTrace example_env example_trace_request)"
    by (simp add: trace_model_defs example_defs)
  show "resolve example_env
       [rs_Attributes example_resource, sp_Attributes example_span,
        ev_Attributes (example_exception 2 [])] zero_ids = Inr zero_ids"
    by (simp add: setHighlightAttributes_def assert_string_def example_env_def
        example_resource_def example_span_def example_exception_def zero_ids_def)
  show "map Timestamp
       (bucket (traceErrors (projr (classifyTrace example_env example_trace_request))) ''A'')
     = [1, 2]"
    by (simp add: trace_model_defs example_defs)
  show "map (deref (projr (classifyTrace example_env example_trace_request)))
       (map SessionSecureID
          (bucket (traceErrors (projr (classifyTrace example_env example_trace_request))) ''A''))
     = [''B'', ''B'']"
    by (simp add: trace_model_defs example_defs)
qed

end
